theory Spec2Isabelle
  imports Complex_Main
begin

section \<open>JavaScript values read by the engine\<close>

text \<open>
  The search engine of \<^verbatim>\<open>Javascript/os-int.js\<close> is a class whose methods throw, catch,
  read parsed JSON and mutate the fields of \<^verbatim>\<open>this\<close>. A thrown value is modelled as the
  left summand of a result; the only thing the program ever reads from a thrown value is
  its \<^verbatim>\<open>message\<close>.
\<close>

datatype js_error =
    Error (message: string)
  | TypeError (message: string)
  | SyntaxError (message: string)

definition bindE :: "'e + 'a \<Rightarrow> ('a \<Rightarrow> 'e + 'b) \<Rightarrow> 'e + 'b" where
  "bindE m f = (case m of Inl e \<Rightarrow> Inl e | Inr x \<Rightarrow> f x)"

text \<open>
  What \<^verbatim>\<open>response.json()\<close> can deliver. Numbers are restricted to integers; strings are
  lists of characters standing for code units. A value of type \<open>jsval\<close> is a JSON value
  or \<^verbatim>\<open>undefined\<close> (\<open>None\<close>), which only arises from reading a property that is absent.
\<close>

datatype json =
    JNull
  | JBool bool
  | JNum int
  | JStr string
  | JArr "json list"
  | JObj "(string \<times> json) list"

type_synonym jsval = "json option"

definition quote :: "string \<Rightarrow> string" where
  "quote k = [CHR 0x27] @ k @ [CHR 0x27]"

definition cannot_read :: "string \<Rightarrow> string \<Rightarrow> js_error" where
  "cannot_read what k =
     TypeError (''Cannot read properties of '' @ what @ '' (reading '' @ quote k @ '')'')"

text \<open>An object built by \<^verbatim>\<open>JSON.parse\<close> keeps the last of several equal keys.\<close>

definition own_property :: "(string \<times> json) list \<Rightarrow> string \<Rightarrow> jsval" where
  "own_property kvs k = map_of (rev kvs) k"

text \<open>
  \<^verbatim>\<open>v.k\<close> for the property names the program reads (\<^verbatim>\<open>name\<close>, \<^verbatim>\<open>data\<close>, \<^verbatim>\<open>items\<close>,
  \<^verbatim>\<open>found\<close>, ...): none of them is defined on the prototypes of strings, numbers,
  booleans or arrays, so there the read gives \<^verbatim>\<open>undefined\<close>; on \<^verbatim>\<open>null\<close> and
  \<^verbatim>\<open>undefined\<close> it throws a \<^verbatim>\<open>TypeError\<close> (worded as V8 words it).
\<close>

fun get_prop :: "jsval \<Rightarrow> string \<Rightarrow> js_error + jsval" where
  "get_prop None k = Inl (cannot_read ''undefined'' k)"
| "get_prop (Some JNull) k = Inl (cannot_read ''null'' k)"
| "get_prop (Some (JObj kvs)) k = Inr (own_property kvs k)"
| "get_prop (Some _) k = Inr None"

text \<open>\<^verbatim>\<open>v[0]\<close>.\<close>

fun get_index0 :: "jsval \<Rightarrow> js_error + jsval" where
  "get_index0 None = Inl (cannot_read ''undefined'' ''0'')"
| "get_index0 (Some JNull) = Inl (cannot_read ''null'' ''0'')"
| "get_index0 (Some (JArr xs)) = Inr (case xs of [] \<Rightarrow> None | x # _ \<Rightarrow> Some x)"
| "get_index0 (Some (JStr s)) = Inr (case s of [] \<Rightarrow> None | c # _ \<Rightarrow> Some (JStr [c]))"
| "get_index0 (Some (JObj kvs)) = Inr (own_property kvs ''0'')"
| "get_index0 (Some _) = Inr None"

definition nullish :: "jsval \<Rightarrow> bool" where
  "nullish v = (v = None \<or> v = Some JNull)"

text \<open>\<^verbatim>\<open>v?.access\<close>: the access is skipped, giving \<^verbatim>\<open>undefined\<close>, when \<open>v\<close> is nullish.\<close>

definition opt_chain :: "jsval \<Rightarrow> (jsval \<Rightarrow> js_error + jsval) \<Rightarrow> js_error + jsval" where
  "opt_chain v access = (if nullish v then Inr None else access v)"

fun truthy :: "jsval \<Rightarrow> bool" where
  "truthy None = False"
| "truthy (Some JNull) = False"
| "truthy (Some (JBool b)) = b"
| "truthy (Some (JNum n)) = (n \<noteq> 0)"
| "truthy (Some (JStr s)) = (s \<noteq> [])"
| "truthy (Some _) = True"

text \<open>\<^verbatim>\<open>v || null\<close> and \<^verbatim>\<open>v || s\<close> for a string \<open>s\<close>.\<close>

definition or_else :: "jsval \<Rightarrow> json \<Rightarrow> json" where
  "or_else v d = (if truthy v then the v else d)"

subsection \<open>Conversion to strings and comparison with zero\<close>

fun show_nat :: "nat \<Rightarrow> string" where
  "show_nat n =
     (if n < 10 then [char_of (48 + n)]
      else show_nat (n div 10) @ [char_of (48 + n mod 10)])"

declare show_nat.simps [simp del]

definition show_int :: "int \<Rightarrow> string" where
  "show_int i = (if i < 0 then ''-'' @ show_nat (nat (- i)) else show_nat (nat i))"

definition not_primitive :: js_error where
  "not_primitive = TypeError ''Cannot convert object to primitive value''"

text \<open>
  \<^verbatim>\<open>ToString\<close>, as a template literal applies it. A parsed object has no callable
  \<^verbatim>\<open>toString\<close> of its own: when the key is present the conversion throws, otherwise
  \<^verbatim>\<open>Object.prototype.toString\<close> answers. An array joins its elements with commas,
  \<^verbatim>\<open>null\<close> elements giving the empty string.
\<close>

fun ToString :: "json \<Rightarrow> js_error + string"
  and join_elements :: "json list \<Rightarrow> js_error + string" where
  "ToString JNull = Inr ''null''"
| "ToString (JBool b) = Inr (if b then ''true'' else ''false'')"
| "ToString (JNum n) = Inr (show_int n)"
| "ToString (JStr s) = Inr s"
| "ToString (JArr xs) = join_elements xs"
| "ToString (JObj kvs) =
     (if own_property kvs ''toString'' \<noteq> None then Inl not_primitive
      else Inr ''[object Object]'')"
| "join_elements [] = Inr []"
| "join_elements [x] = (if x = JNull then Inr [] else ToString x)"
| "join_elements (x # y # ys) =
     (case (if x = JNull then Inr [] else ToString x) of
        Inl e \<Rightarrow> Inl e
      | Inr a \<Rightarrow>
          (case join_elements (y # ys) of
             Inl e \<Rightarrow> Inl e
           | Inr b \<Rightarrow> Inr (a @ '','' @ b)))"

definition template_str :: "jsval \<Rightarrow> js_error + string" where
  "template_str v = (case v of None \<Rightarrow> Inr ''undefined'' | Some j \<Rightarrow> ToString j)"

text \<open>
  \<^verbatim>\<open>v > 0\<close>. \<^verbatim>\<open>undefined\<close> converts to NaN and \<^verbatim>\<open>null\<close> to 0; a string is parsed as
  a numeric literal, which is left to the parameter \<open>positive\<close> (whether the string
  denotes a number greater than zero); an array is compared through its string, an
  object through \<^verbatim>\<open>[object Object]\<close>, which is NaN.
\<close>

fun greater_than_zero :: "(string \<Rightarrow> bool) \<Rightarrow> jsval \<Rightarrow> js_error + bool" where
  "greater_than_zero positive None = Inr False"
| "greater_than_zero positive (Some JNull) = Inr False"
| "greater_than_zero positive (Some (JBool b)) = Inr b"
| "greater_than_zero positive (Some (JNum n)) = Inr (0 < n)"
| "greater_than_zero positive (Some (JStr s)) = Inr (positive s)"
| "greater_than_zero positive (Some (JArr xs)) =
     bindE (join_elements xs) (\<lambda>s. Inr (positive s))"
| "greater_than_zero positive (Some (JObj kvs)) =
     (if own_property kvs ''toString'' \<noteq> None then Inl not_primitive else Inr False)"

section \<open>Result records and their formatters\<close>

text \<open>
  A result object. \<^verbatim>\<open>url\<close> and \<^verbatim>\<open>description\<close> may be copied from the response
  (\<^verbatim>\<open>data.url || null\<close>), so they are JSON values. The objects built in the two
  \<^verbatim>\<open>catch\<close> blocks have no \<^verbatim>\<open>content\<close> field: \<open>None\<close>.
\<close>

datatype content_value = Markup string | PrototypeMember string

record search_result =
  platform :: string
  status :: string
  url :: json
  description :: json
  content :: "content_value option"
  timestamp :: string

definition found_block :: "nat \<Rightarrow> string \<Rightarrow> string \<Rightarrow> string" where
  \<open>found_block indent heading paragraph =
     ''<div class="found-content">'' @ [CHR 0x0A] @
     replicate (indent + 4) CHR '' '' @ ''<h4>'' @ heading @ ''</h4>'' @ [CHR 0x0A] @
     replicate (indent + 4) CHR '' '' @ ''<p>'' @ paragraph @ ''</p>'' @ [CHR 0x0A] @
     replicate indent CHR '' '' @ ''</div>''\<close>

text \<open>The \<^verbatim>\<open>templates\<close> object of \<^verbatim>\<open>generateFoundContent\<close>, for converted \<open>type\<close> and \<open>query\<close>.\<close>

definition templates :: "string \<Rightarrow> string \<Rightarrow> (string \<times> string) list" where
  "templates ty q =
     [(''Google'', found_block 12 ''Search Results'' (''Multiple results found for '' @ ty @ '': '' @ q)),
      (''Facebook'', found_block 12 ''Profile Found'' (''Facebook profile found for '' @ ty @ '': '' @ q)),
      (''Twitter'', found_block 12 ''Account Located'' (''Twitter account found matching '' @ ty @ '': '' @ q)),
      (''Instagram'', found_block 12 ''Instagram Profile'' (''Instagram account found for '' @ ty @ '': '' @ q)),
      (''LinkedIn'', found_block 12 ''Professional Profile'' (''LinkedIn profile found for '' @ ty @ '': '' @ q)),
      (''GitHub'', found_block 12 ''Developer Profile'' (''GitHub account found for '' @ ty @ '': '' @ q)),
      (''Reddit'', found_block 12 ''Reddit User'' (''Reddit account found for '' @ ty @ '': '' @ q)),
      (''YouTube'', found_block 12 ''YouTube Channel'' (''YouTube channel found for '' @ ty @ '': '' @ q))]"

text \<open>\<^verbatim>\<open>templates[platform]\<close> also finds what the object inherits from \<^verbatim>\<open>Object.prototype\<close>.\<close>

definition Object_prototype :: "string list" where
  "Object_prototype =
     [''constructor'', ''__proto__'', ''hasOwnProperty'', ''isPrototypeOf'',
      ''propertyIsEnumerable'', ''toLocaleString'', ''toString'', ''valueOf'',
      ''__defineGetter__'', ''__defineSetter__'', ''__lookupGetter__'', ''__lookupSetter__'']"

definition generateFoundContent ::
  "string \<Rightarrow> jsval \<Rightarrow> jsval \<Rightarrow> js_error + content_value" where
  "generateFoundContent name query type =
     bindE (template_str type) (\<lambda>ty.
     bindE (template_str query) (\<lambda>q.
       case map_of (templates ty q) name of
         Some t \<Rightarrow> Inr (Markup t)
       | None \<Rightarrow>
           if name \<in> set Object_prototype then Inr (PrototypeMember name)
           else Inr (Markup (found_block 8 ''Results Found''
                  (''Information found on '' @ name @ '' for '' @ ty @ '': '' @ q)))))"

text \<open>
  The formatters. \<open>ts\<close> is what \<^verbatim>\<open>new Date().toISOString()\<close> gives when the object is
  built. The fields are evaluated in the order of the object literal, so the first
  failing read decides the error.
\<close>

definition formatTruecallerResult :: "string \<Rightarrow> jsval \<Rightarrow> js_error + search_result" where
  "formatTruecallerResult ts data =
     bindE (get_prop data ''name'') (\<lambda>name.
     bindE (if truthy name
            then bindE (template_str name) (\<lambda>n.
                 bindE (get_prop data ''spamScore'') (\<lambda>spam.
                 bindE (template_str spam) (\<lambda>sp. Inr (''Name: '' @ n @ '', Spam: '' @ sp))))
            else Inr ''No information found'') (\<lambda>d.
     bindE (get_prop data ''query'') (\<lambda>q.
     bindE (get_prop data ''type'') (\<lambda>ty.
     bindE (generateFoundContent ''TrueCaller'' q ty) (\<lambda>c.
       Inr \<lparr>platform = ''TrueCaller'',
            status = (if truthy name then ''found'' else ''not-found''),
            url = JNull, description = JStr d, content = Some c, timestamp = ts\<rparr>)))))"

definition formatTwitterResult :: "string \<Rightarrow> jsval \<Rightarrow> js_error + search_result" where
  "formatTwitterResult ts data =
     bindE (get_prop data ''data'') (\<lambda>user.
     bindE (if truthy user
            then bindE (get_prop user ''username'') (\<lambda>u.
                 bindE (template_str u) (\<lambda>n. Inr (JStr (''https://twitter.com/'' @ n))))
            else Inr JNull) (\<lambda>link.
     bindE (if truthy user
            then bindE (get_prop user ''username'') (\<lambda>u.
                 bindE (template_str u) (\<lambda>n. Inr (''Twitter user found: @'' @ n)))
            else Inr ''No Twitter account found'') (\<lambda>d.
     bindE (get_prop data ''query'') (\<lambda>q.
     bindE (get_prop data ''type'') (\<lambda>ty.
     bindE (generateFoundContent ''Twitter'' q ty) (\<lambda>c.
       Inr \<lparr>platform = ''Twitter'',
            status = (if truthy user then ''found'' else ''not-found''),
            url = link, description = JStr d, content = Some c, timestamp = ts\<rparr>))))))"

definition formatGithubResult ::
  "(string \<Rightarrow> bool) \<Rightarrow> string \<Rightarrow> jsval \<Rightarrow> js_error + search_result" where
  "formatGithubResult positive ts data =
     bindE (get_prop data ''total_count'') (\<lambda>total.
     bindE (greater_than_zero positive total) (\<lambda>some.
     bindE (get_prop data ''items'') (\<lambda>items.
     bindE (opt_chain items (\<lambda>its.
              bindE (get_index0 its) (\<lambda>first.
              opt_chain first (\<lambda>f. get_prop f ''html_url'')))) (\<lambda>html_url.
     bindE (if some
            then bindE (get_index0 items) (\<lambda>first.
                 bindE (get_prop first ''login'') (\<lambda>login.
                 bindE (template_str login) (\<lambda>l. Inr (''GitHub user found: '' @ l))))
            else Inr ''No GitHub account found'') (\<lambda>d.
     bindE (get_prop data ''query'') (\<lambda>q.
     bindE (get_prop data ''type'') (\<lambda>ty.
     bindE (generateFoundContent ''GitHub'' q ty) (\<lambda>c.
       Inr \<lparr>platform = ''GitHub'',
            status = (if some then ''found'' else ''not-found''),
            url = or_else html_url JNull, description = JStr d, content = Some c,
            timestamp = ts\<rparr>))))))))"

definition formatDefaultResult ::
  "string \<Rightarrow> string \<Rightarrow> jsval \<Rightarrow> string \<Rightarrow> string \<Rightarrow> js_error + search_result" where
  "formatDefaultResult ts platformKey data query type =
     bindE (get_prop data ''found'') (\<lambda>found.
     bindE (get_prop data ''url'') (\<lambda>link.
     bindE (get_prop data ''description'') (\<lambda>d.
     bindE (generateFoundContent platformKey (Some (JStr query)) (Some (JStr type))) (\<lambda>c.
       Inr \<lparr>platform = platformKey,
            status = (if truthy found then ''found'' else ''not-found''),
            url = or_else link JNull,
            description = or_else d (JStr (''Search completed on '' @ platformKey)),
            content = Some c, timestamp = ts\<rparr>))))"

definition formatWhatsAppResult :: "string \<Rightarrow> jsval \<Rightarrow> js_error + search_result" where
  "formatWhatsAppResult ts data =
     bindE (get_prop data ''contacts'') (\<lambda>contacts.
     bindE (get_prop data ''query'') (\<lambda>q.
     bindE (get_prop data ''type'') (\<lambda>ty.
     bindE (generateFoundContent ''WhatsApp'' q ty) (\<lambda>c.
       Inr \<lparr>platform = ''WhatsApp'',
            status = (if truthy contacts then ''found'' else ''not-found''),
            url = JNull,
            description = JStr (if truthy contacts then ''WhatsApp account exists''
                                else ''No WhatsApp account found''),
            content = Some c, timestamp = ts\<rparr>))))"

definition formatUPIResult :: "string \<Rightarrow> jsval \<Rightarrow> js_error + search_result" where
  "formatUPIResult ts data =
     bindE (get_prop data ''valid'') (\<lambda>valid.
     bindE (if truthy valid
            then bindE (get_prop data ''vpa'') (\<lambda>vpa.
                 bindE (template_str vpa) (\<lambda>v. Inr (''Valid UPI ID: '' @ v)))
            else Inr ''Invalid UPI handle'') (\<lambda>d.
     bindE (get_prop data ''query'') (\<lambda>q.
     bindE (get_prop data ''type'') (\<lambda>ty.
     bindE (generateFoundContent ''UPI'' q ty) (\<lambda>c.
       Inr \<lparr>platform = ''UPI'',
            status = (if truthy valid then ''found'' else ''not-found''),
            url = JNull, description = JStr d, content = Some c, timestamp = ts\<rparr>)))))"

definition formatSearchResult ::
  "(string \<Rightarrow> bool) \<Rightarrow> string \<Rightarrow> string \<Rightarrow> jsval \<Rightarrow> string \<Rightarrow> string
     \<Rightarrow> js_error + search_result" where
  "formatSearchResult positive ts platformKey data query type =
     (if platformKey = ''truecaller'' then formatTruecallerResult ts data
      else if platformKey = ''twitter'' then formatTwitterResult ts data
      else if platformKey = ''github'' then formatGithubResult positive ts data
      else if platformKey = ''whatsapp'' then formatWhatsAppResult ts data
      else if platformKey = ''upi'' then formatUPIResult ts data
      else formatDefaultResult ts platformKey data query type)"

section \<open>The engine and what it does to the outside\<close>

text \<open>
  A \<^verbatim>\<open>Response\<close> as the engine uses it: the status code, from which \<^verbatim>\<open>ok\<close> is
  derived, and what \<^verbatim>\<open>response.json()\<close> settles to (\<open>Inl\<close> when the body does not
  parse).
\<close>

record response =
  http_status :: nat
  json_body :: "js_error + json"

definition ok :: "response \<Rightarrow> bool" where
  "ok r = (200 \<le> http_status r \<and> http_status r \<le> 299)"

text \<open>
  The outside world is a parameter. \<open>fetch env n key query type\<close> is how the request
  \<^verbatim>\<open>POST /api/search/<key>\<close> with body \<^verbatim>\<open>{query, type, countryCode: 'IN'}\<close>, issued after
  \<open>n\<close> earlier effects, settles: rejected (\<open>Inl\<close>) or answered. \<open>now env n\<close> is the
  clock reading at that point, and \<open>positive env\<close> the numeric reading of strings.
\<close>

record environment =
  fetch :: "nat \<Rightarrow> string \<Rightarrow> string \<Rightarrow> string \<Rightarrow> js_error + response"
  now :: "nat \<Rightarrow> string"
  positive :: "string \<Rightarrow> bool"

text \<open>
  Everything the engine does besides changing its own fields is recorded, in order:
  calls of \<^verbatim>\<open>updateProgress\<close> (whose only effect is to write the message and the
  percentage into the two progress elements when both exist), requests, waits and
  console output. The percentage is kept as the exact quotient.
\<close>

datatype effect =
    Progress string rat
  | Fetch string string string
  | Delay nat
  | ConsoleError string js_error

text \<open>The fields of \<^verbatim>\<open>this\<close>, and with them the effects so far.\<close>

record engine =
  results :: "search_result list"
  searchProgress :: nat
  totalPlatforms :: nat
  completedSearches :: nat

record world = engine +
  trace :: "effect list"

definition emit :: "effect \<Rightarrow> world \<Rightarrow> world" where
  "emit e w = w\<lparr>trace := trace w @ [e]\<rparr>"

definition updateProgress :: "string \<Rightarrow> rat \<Rightarrow> world \<Rightarrow> world" where
  "updateProgress msg percent w = emit (Progress msg percent) w"

definition delay :: "nat \<Rightarrow> world \<Rightarrow> world" where
  "delay ms w = emit (Delay ms) w"

definition push :: "search_result \<Rightarrow> world \<Rightarrow> world" where
  "push r w = w\<lparr>results := results w @ [r]\<rparr>"

definition errorResult :: "string \<Rightarrow> js_error \<Rightarrow> string \<Rightarrow> search_result" where
  "errorResult platformKey error ts =
     \<lparr>platform = platformKey, status = ''error'', url = JNull,
      description = JStr (''Error: '' @ message error), content = None, timestamp = ts\<rparr>"

text \<open>The body of the \<^verbatim>\<open>try\<close> block of \<^verbatim>\<open>searchPlatform\<close>.\<close>

definition searchPlatform_try ::
  "environment \<Rightarrow> string \<Rightarrow> string \<Rightarrow> string \<Rightarrow> world
     \<Rightarrow> (js_error + search_result) \<times> world" where
  "searchPlatform_try env platformKey query type w =
     (let w1 = emit (Fetch platformKey query type) w in
      case fetch env (length (trace w)) platformKey query type of
        Inl rejected \<Rightarrow> (Inl rejected, w1)
      | Inr resp \<Rightarrow>
          if \<not> ok resp
          then (Inl (Error (''HTTP error! status: '' @ show_nat (http_status resp))), w1)
          else
            (case json_body resp of
               Inl unparsed \<Rightarrow> (Inl unparsed, w1)
             | Inr data \<Rightarrow>
                 (case formatSearchResult (positive env) (now env (length (trace w1)))
                         platformKey (Some data) query type of
                    Inl thrown \<Rightarrow> (Inl thrown, w1)
                  | Inr result \<Rightarrow> (Inr result, push result w1))))"

text \<open>\<^verbatim>\<open>searchPlatform\<close>: the \<^verbatim>\<open>try\<close> block, and the \<^verbatim>\<open>catch\<close> block on what it throws.\<close>

definition searchPlatform ::
  "environment \<Rightarrow> string \<Rightarrow> string \<Rightarrow> string \<Rightarrow> world
     \<Rightarrow> (js_error + search_result) \<times> world" where
  "searchPlatform env platformKey query type w =
     (case searchPlatform_try env platformKey query type w of
        (Inr result, w') \<Rightarrow> (Inr result, w')
      | (Inl error, w') \<Rightarrow>
          (let w2 = emit (ConsoleError (''Error searching '' @ platformKey @ '':'') error) w';
               r = errorResult platformKey error (now env (length (trace w2)))
           in (Inr r, push r w2)))"

definition percent_done :: "world \<Rightarrow> rat" where
  "percent_done w = (of_nat (completedSearches w) / of_nat (totalPlatforms w)) * 100"

text \<open>The \<^verbatim>\<open>try\<close> block inside the loop of \<^verbatim>\<open>performSearch\<close>.\<close>

definition iteration_try ::
  "environment \<Rightarrow> string \<Rightarrow> string \<Rightarrow> string \<Rightarrow> world \<Rightarrow> (js_error + unit) \<times> world" where
  "iteration_try env query type p w =
     (let w1 = updateProgress (''Searching '' @ p @ ''...'') (percent_done w) w in
      case searchPlatform env p query type w1 of
        (Inl thrown, w2) \<Rightarrow> (Inl thrown, w2)
      | (Inr _, w2) \<Rightarrow>
          (let w3 = w2\<lparr>completedSearches := completedSearches w2 + 1\<rparr>;
               w4 = updateProgress
                      (''Searched '' @ show_nat (completedSearches w3) @ ''/''
                         @ show_nat (totalPlatforms w3) @ '' platforms'')
                      (percent_done w3) w3;
               w5 = delay 1000 w4
           in (Inr (), w5)))"

text \<open>One turn of the loop: the \<^verbatim>\<open>try\<close> block and the \<^verbatim>\<open>catch\<close> block.\<close>

definition iteration :: "environment \<Rightarrow> string \<Rightarrow> string \<Rightarrow> string \<Rightarrow> world \<Rightarrow> world" where
  "iteration env query type p w =
     (case iteration_try env query type p w of
        (Inr _, w') \<Rightarrow> w'
      | (Inl error, w') \<Rightarrow>
          (let w2 = emit (ConsoleError (''Error searching '' @ p @ '':'') error) w'
           in push (errorResult p error (now env (length (trace w2)))) w2))"

fun search_each :: "environment \<Rightarrow> string \<Rightarrow> string \<Rightarrow> string list \<Rightarrow> world \<Rightarrow> world" where
  "search_each env query type [] w = w"
| "search_each env query type (p # ps) w =
     search_each env query type ps (iteration env query type p w)"

definition js_whitespace :: "char \<Rightarrow> bool" where
  "js_whitespace c =
     (c \<in> set [CHR 0x09, CHR 0x0A, CHR 0x0B, CHR 0x0C, CHR 0x0D, CHR '' '', CHR 0xA0])"

definition trim :: "string \<Rightarrow> string" where
  "trim s = rev (dropWhile js_whitespace (rev (dropWhile js_whitespace s)))"

definition search_types :: "string list" where
  "search_types = [''email'', ''phone'', ''username'', ''name'']"

definition performSearch ::
  "environment \<Rightarrow> string \<Rightarrow> string \<Rightarrow> string list \<Rightarrow> world
     \<Rightarrow> (js_error + search_result list) \<times> world" where
  "performSearch env query type selectedPlatforms w0 =
     (let w = w0\<lparr>results := [], searchProgress := 0, completedSearches := 0,
                  totalPlatforms := length selectedPlatforms\<rparr>
      in if query = [] \<or> trim query = []
         then (Inl (Error ''Search query cannot be empty''), w)
         else if type = [] \<or> type \<notin> set search_types
         then (Inl (Error ''Invalid search type''), w)
         else
           (let w1 = updateProgress ''Initializing search...'' 0 w;
                w2 = search_each env query type selectedPlatforms w1;
                w3 = updateProgress ''Search completed!'' 100 w2
            in (Inr (results w3), w3)))"

record stats =
  total :: nat
  found :: nat
  completed :: nat

definition getSearchStats :: "world \<Rightarrow> stats" where
  "getSearchStats w =
     \<lparr>total = totalPlatforms w,
      found = length (filter (\<lambda>r. status r = ''found'') (results w)),
      completed = completedSearches w\<rparr>"

section \<open>Validation by type\<close>

text \<open>
  The two regular expressions of \<^verbatim>\<open>validateSearchInput\<close> are anchored at both ends and
  use only classes, sequence, \<^verbatim>\<open>+\<close>, \<^verbatim>\<open>?\<close> and \<^verbatim>\<open>{10,}\<close>, so \<^verbatim>\<open>test\<close> is membership of
  the whole string in a regular language, decided here by derivatives.
\<close>

definition js_digit :: "char \<Rightarrow> bool" where
  "js_digit c = (c \<in> set ''0123456789'')"

datatype char_class = Lit char | Space | Digit

fun in_class :: "char \<Rightarrow> char_class \<Rightarrow> bool" where
  "in_class c (Lit d) = (c = d)"
| "in_class c Space = js_whitespace c"
| "in_class c Digit = js_digit c"

datatype regex =
    Never
  | Empty
  | OneOf "char_class list"
  | NoneOf "char_class list"
  | Seq regex regex
  | Alt regex regex
  | Star regex

fun nullable :: "regex \<Rightarrow> bool" where
  "nullable Never = False"
| "nullable Empty = True"
| "nullable (OneOf cs) = False"
| "nullable (NoneOf cs) = False"
| "nullable (Seq a b) = (nullable a \<and> nullable b)"
| "nullable (Alt a b) = (nullable a \<or> nullable b)"
| "nullable (Star a) = True"

fun seq :: "regex \<Rightarrow> regex \<Rightarrow> regex" where
  "seq Never b = Never"
| "seq Empty b = b"
| "seq a b = Seq a b"

fun alt :: "regex \<Rightarrow> regex \<Rightarrow> regex" where
  "alt Never b = b"
| "alt a Never = a"
| "alt a b = Alt a b"

fun deriv :: "char \<Rightarrow> regex \<Rightarrow> regex" where
  "deriv c Never = Never"
| "deriv c Empty = Never"
| "deriv c (OneOf cs) = (if \<exists>k \<in> set cs. in_class c k then Empty else Never)"
| "deriv c (NoneOf cs) = (if \<exists>k \<in> set cs. in_class c k then Never else Empty)"
| "deriv c (Seq a b) =
     (if nullable a then alt (seq (deriv c a) b) (deriv c b) else seq (deriv c a) b)"
| "deriv c (Alt a b) = alt (deriv c a) (deriv c b)"
| "deriv c (Star a) = seq (deriv c a) (Star a)"

definition regex_test :: "regex \<Rightarrow> string \<Rightarrow> bool" where
  "regex_test r s = nullable (foldl (\<lambda>r c. deriv c r) r s)"

definition Plus :: "regex \<Rightarrow> regex" where
  "Plus r = Seq r (Star r)"

definition Opt :: "regex \<Rightarrow> regex" where
  "Opt r = Alt r Empty"

fun AtLeast :: "nat \<Rightarrow> regex \<Rightarrow> regex" where
  "AtLeast 0 r = Star r"
| "AtLeast (Suc n) r = Seq r (AtLeast n r)"

text \<open>\<^verbatim>\<open>/^[^\s@]+@[^\s@]+\.[^\s@]+$/\<close>\<close>

definition emailRegex :: regex where
  "emailRegex =
     Seq (Plus (NoneOf [Space, Lit CHR ''@'']))
    (Seq (OneOf [Lit CHR ''@''])
    (Seq (Plus (NoneOf [Space, Lit CHR ''@'']))
    (Seq (OneOf [Lit CHR ''.''])
         (Plus (NoneOf [Space, Lit CHR ''@''])))))"

text \<open>\<^verbatim>\<open>/^\+?[\d\s-]{10,}$/\<close>\<close>

definition phoneRegex :: regex where
  "phoneRegex =
     Seq (Opt (OneOf [Lit CHR ''+'']))
         (AtLeast 10 (OneOf [Digit, Space, Lit CHR ''-'']))"

definition validateSearchInput :: "string \<Rightarrow> string \<Rightarrow> js_error + bool" where
  "validateSearchInput query type =
     (if type = ''email''
      then (if \<not> regex_test emailRegex query then Inl (Error ''Invalid email format'')
            else Inr True)
      else if type = ''phone''
      then (if \<not> regex_test phoneRegex query then Inl (Error ''Invalid phone number format'')
            else Inr True)
      else if type = ''username''
      then (if length query < 3
            then Inl (Error ''Username must be at least 3 characters long'')
            else Inr True)
      else if type = ''name''
      then (if length query < 2 then Inl (Error ''Name must be at least 2 characters long'')
            else Inr True)
      else Inr True)"

section \<open>The server behind \<^verbatim>\<open>/api/search/:platform\<close>\<close>

text \<open>
  The Express handler that answers the engine's requests and its helper
  \<^verbatim>\<open>handlePlatformSearch\<close>. The services the helper calls, the process environment and
  the text of a stack trace are parameters. The answer is the JSON text the client
  parses, so a field whose value is \<^verbatim>\<open>undefined\<close> is absent from it.
\<close>

record server =
  getJson :: "string \<Rightarrow> string \<Rightarrow> js_error + jsval"
  HUNTER_API_KEY :: "string option"
  axios_get :: "string \<Rightarrow> string \<Rightarrow> string \<Rightarrow> js_error + jsval"
  GITHUB_API_KEY :: "string option"
  github_fetch :: "string \<Rightarrow> string option \<Rightarrow> js_error + json"
  NODE_ENV :: "string option"
  stack_of :: "js_error \<Rightarrow> string"

definition hex_digit :: "nat \<Rightarrow> char" where
  "hex_digit n = (''0123456789ABCDEF'') ! (n mod 16)"

definition percent_byte :: "nat \<Rightarrow> string" where
  "percent_byte b = [CHR ''%'', hex_digit (b div 16), hex_digit b]"

definition unreserved :: "char \<Rightarrow> bool" where
  "unreserved c =
     (c \<in> set ''ABCDEFGHIJKLMNOPQRSTUVWXYZabcdefghijklmnopqrstuvwxyz0123456789-_.!~*()''
      \<or> c = CHR 0x27)"

text \<open>\<^verbatim>\<open>encodeURIComponent\<close>: the UTF-8 bytes of every other character, escaped.\<close>

definition encode_char :: "char \<Rightarrow> string" where
  "encode_char c =
     (let n = of_char c :: nat in
      if unreserved c then [c]
      else if n < 128 then percent_byte n
      else percent_byte (192 + n div 64) @ percent_byte (128 + n mod 64))"

definition encodeURIComponent :: "string \<Rightarrow> string" where
  "encodeURIComponent s = concat (map encode_char s)"

definition object :: "(string \<times> jsval) list \<Rightarrow> json" where
  "object members =
     JObj (concat (map (\<lambda>(k, v). case v of None \<Rightarrow> [] | Some j \<Rightarrow> [(k, j)]) members))"

fun error_name :: "js_error \<Rightarrow> string" where
  "error_name (Error m) = ''Error''"
| "error_name (TypeError m) = ''TypeError''"
| "error_name (SyntaxError m) = ''SyntaxError''"

definition error_toString :: "js_error \<Rightarrow> string" where
  "error_toString e = (if message e = [] then error_name e else error_name e @ '': '' @ message e)"

definition google_search_url :: "string \<Rightarrow> string" where
  "google_search_url query = ''https://www.google.com/search?q='' @ encodeURIComponent query"

definition github_search_url :: "string \<Rightarrow> string" where
  "github_search_url query =
     ''https://github.com/search?q='' @ encodeURIComponent query @ ''&type=users''"

text \<open>The \<^verbatim>\<open>try\<close> blocks of the three cases that have one.\<close>

definition google_try :: "server \<Rightarrow> string \<Rightarrow> string \<Rightarrow> js_error + json" where
  "google_try srv query type =
     (if type = ''places'' \<or> type = ''geocode''
      then bindE (getJson srv query ''google_maps'') (\<lambda>searchResults.
           if \<not> truthy searchResults then Inl (Error ''No results returned from SERP API'')
           else Inr (object
             [(''found'', Some (JBool True)), (''data'', searchResults),
              (''url'', Some (JStr (''https://www.google.com/maps/search/''
                                      @ encodeURIComponent query))),
              (''description'', Some (JStr (''Google '' @ type @ '' results for '' @ query)))]))
      else bindE (getJson srv query ''google'') (\<lambda>searchResults.
           if \<not> truthy searchResults then Inl (Error ''No results returned from SERP API'')
           else Inr (object
             [(''found'', Some (JBool True)), (''data'', searchResults),
              (''url'', Some (JStr (google_search_url query))),
              (''description'', Some (JStr (''Google search results for '' @ query)))])))"

definition hunter_try :: "server \<Rightarrow> string \<Rightarrow> string \<Rightarrow> js_error + json" where
  "hunter_try srv query type =
     (case HUNTER_API_KEY srv of
        None \<Rightarrow> Inl (Error ''Hunter.io API key not configured'')
      | Some hunterApiKey \<Rightarrow>
          if hunterApiKey = [] then Inl (Error ''Hunter.io API key not configured'')
          else
            bindE (if type = ''domain''
                   then axios_get srv ''https://api.hunter.io/v2/domain-search'' query hunterApiKey
                   else if type = ''email''
                   then axios_get srv ''https://api.hunter.io/v2/email-verifier'' query hunterApiKey
                   else Inl (cannot_read ''undefined'' ''data'')) (\<lambda>data.
            Inr (object
              [(''found'', Some (JBool True)), (''data'', data),
               (''url'', Some (JStr (if type = ''domain''
                    then ''https://hunter.io/search/'' @ encodeURIComponent query
                    else ''https://hunter.io/email-verifier/'' @ encodeURIComponent query))),
               (''description'',
                  Some (JStr (''Hunter.io '' @ type @ '' search results for '' @ query))),
               (''status'', Some (JStr ''found''))])))"

definition github_try :: "server \<Rightarrow> string \<Rightarrow> string \<Rightarrow> js_error + json" where
  "github_try srv query type =
     bindE (github_fetch srv
              (''https://api.github.com/search/users?q='' @ encodeURIComponent query)
              (case GITHUB_API_KEY srv of
                 None \<Rightarrow> None
               | Some k \<Rightarrow> if k = [] then None else Some k)) (\<lambda>data.
     Inr (object
       [(''found'', Some (JBool True)), (''data'', Some data),
        (''url'', Some (JStr (if type = ''username''
             then ''https://github.com/'' @ encodeURIComponent query
             else github_search_url query))),
        (''description'', Some (JStr (''GitHub search results for '' @ query))),
        (''status'', Some (JStr ''found''))]))"

definition redirect_result :: "string \<Rightarrow> string \<Rightarrow> json" where
  "redirect_result link d =
     object [(''found'', Some (JBool True)), (''url'', Some (JStr link)),
             (''description'', Some (JStr d)), (''status'', Some (JStr ''found''))]"

definition handlePlatformSearch :: "server \<Rightarrow> string \<Rightarrow> string \<Rightarrow> string \<Rightarrow> js_error + json" where
  "handlePlatformSearch srv p query type =
     (if p = ''google'' then
        (case google_try srv query type of
           Inr r \<Rightarrow> Inr r
         | Inl error \<Rightarrow> Inr (object
             [(''found'', Some (JBool False)), (''error'', Some (JStr ''SERP API request failed'')),
              (''description'', Some (JStr (message error))),
              (''details'', Some (JStr (error_toString error))),
              (''url'', Some (JStr (google_search_url query)))]))
      else if p = ''facebook'' then
        Inr (redirect_result
               (''https://www.facebook.com/search/top?q='' @ encodeURIComponent query)
               (''Facebook search results for '' @ query))
      else if p = ''twitter'' then
        Inr (redirect_result
               (''https://twitter.com/search?q='' @ encodeURIComponent query)
               (''Twitter search results for '' @ query))
      else if p = ''instagram'' then
        Inr (redirect_result
               (if type = ''username''
                then ''https://www.instagram.com/'' @ encodeURIComponent query @ ''/''
                else ''https://www.instagram.com/explore/tags/'' @ encodeURIComponent query @ ''/'')
               (''Instagram '' @ (if type = ''username'' then ''profile'' else ''search'')
                  @ '' for '' @ query))
      else if p = ''hunter'' then
        (case hunter_try srv query type of
           Inr r \<Rightarrow> Inr r
         | Inl error \<Rightarrow> Inr (object
             [(''found'', Some (JBool False)), (''error'', Some (JStr (message error))),
              (''description'', Some (JStr (''Error searching Hunter.io: '' @ message error))),
              (''status'', Some (JStr ''error''))]))
      else if p = ''github'' then
        (case github_try srv query type of
           Inr r \<Rightarrow> Inr r
         | Inl error \<Rightarrow> Inr (object
             [(''found'', Some (JBool False)), (''error'', Some (JStr (message error))),
              (''url'', Some (JStr (github_search_url query))),
              (''description'', Some (JStr (''Error searching GitHub: '' @ message error))),
              (''status'', Some (JStr ''error''))]))
      else if p = ''reddit'' then
        Inr (redirect_result
               (if type = ''username''
                then ''https://www.reddit.com/user/'' @ encodeURIComponent query
                else ''https://www.reddit.com/search/?q='' @ encodeURIComponent query)
               (''Reddit '' @ (if type = ''username'' then ''user profile'' else ''search results'')
                  @ '' for '' @ query))
      else if p = ''youtube'' then
        Inr (redirect_result
               (''https://www.youtube.com/results?search_query='' @ encodeURIComponent query)
               (''YouTube search results for '' @ query))
      else Inl (Error (''Platform '' @ p @ '' not supported'')))"

definition spread :: "json \<Rightarrow> (string \<times> jsval) list \<Rightarrow> json" where
  "spread j members =
     (case j of JObj kvs \<Rightarrow> (case object members of JObj extra \<Rightarrow> JObj (kvs @ extra) | _ \<Rightarrow> j)
              | _ \<Rightarrow> object members)"

text \<open>The handler of \<^verbatim>\<open>POST /api/search/:platform\<close>, for a body with strings.\<close>

definition search_route :: "server \<Rightarrow> string \<Rightarrow> string \<Rightarrow> string \<Rightarrow> response" where
  "search_route srv p query type =
     (if query = []
      then \<lparr>http_status = 400,
            json_body = Inr (object [(''error'', Some (JStr ''Query is required''))])\<rparr>
      else
        (let searchType = (if type = [] then ''search'' else type) in
         case handlePlatformSearch srv p query searchType of
           Inr result \<Rightarrow>
             \<lparr>http_status = 200,
              json_body = Inr (spread result
                [(''query'', Some (JStr query)), (''type'', Some (JStr searchType))])\<rparr>
         | Inl error \<Rightarrow>
             \<lparr>http_status = 500,
              json_body = Inr (object
                [(''error'', Some (JStr (message error))),
                 (''query'', Some (JStr query)), (''type'', Some (JStr type)),
                 (''stack'', if NODE_ENV srv = Some ''development''
                             then Some (JStr (stack_of srv error)) else None)])\<rparr>))"

text \<open>
  A platform key that is one plain path segment of the request URL, so that the request
  reaches the handler with this key as its \<^verbatim>\<open>:platform\<close> parameter.
\<close>

definition plain_key :: "string \<Rightarrow> bool" where
  "plain_key p =
     (p \<noteq> [] \<and>
      (\<forall>c \<in> set p. c \<in> set ''ABCDEFGHIJKLMNOPQRSTUVWXYZabcdefghijklmnopqrstuvwxyz0123456789-_''))"

text \<open>The engine's requests with plain keys are answered by the handler.\<close>

definition served_by :: "server \<Rightarrow> environment \<Rightarrow> bool" where
  "served_by srv env =
     (\<forall>n p query type. plain_key p \<longrightarrow> fetch env n p query type = Inr (search_route srv p query type))"

definition server_platforms :: "string list" where
  "server_platforms =
     [''google'', ''facebook'', ''twitter'', ''instagram'', ''hunter'', ''github'', ''reddit'',
      ''youtube'']"

section \<open>Observations and sample surroundings\<close>

text \<open>The progress reports among some effects, and the requests and waits among them.\<close>

fun progress_events :: "effect list \<Rightarrow> (string \<times> rat) list" where
  "progress_events [] = []"
| "progress_events (Progress m x # es) = (m, x) # progress_events es"
| "progress_events (_ # es) = progress_events es"

fun pacing :: "effect list \<Rightarrow> effect list" where
  "pacing [] = []"
| "pacing (Fetch p q t # es) = Fetch p q t # pacing es"
| "pacing (Delay ms # es) = Delay ms # pacing es"
| "pacing (_ # es) = pacing es"

text \<open>The platform keys requested among some effects, in order.\<close>

fun requests :: "effect list \<Rightarrow> string list" where
  "requests [] = []"
| "requests (Fetch p q t # es) = p # requests es"
| "requests (_ # es) = requests es"

text \<open>The engine as its constructor leaves it, before anything has happened.\<close>

definition fresh :: world where
  "fresh = \<lparr>results = [], searchProgress = 0, totalPlatforms = 0, completedSearches = 0,
            trace = []\<rparr>"

text \<open>A server without keys whose outgoing calls all fail.\<close>

definition offline_server :: server where
  "offline_server =
     \<lparr>getJson = (\<lambda>q e. Inl (Error ''getaddrinfo ENOTFOUND serpapi.com'')),
      HUNTER_API_KEY = None,
      axios_get = (\<lambda>u q k. Inl (Error ''Network Error'')),
      GITHUB_API_KEY = None,
      github_fetch = (\<lambda>u k. Inl (TypeError ''fetch failed'')),
      NODE_ENV = None,
      stack_of = error_toString\<rparr>"

text \<open>Surroundings in which every request reaches the handler of a given server.\<close>

definition served :: "server \<Rightarrow> environment" where
  "served srv =
     \<lparr>fetch = (\<lambda>n p query type. Inr (search_route srv p query type)),
      now = (\<lambda>n. ''2024-01-01T00:00:00.000Z''),
      positive = (\<lambda>s. False)\<rparr>"

text \<open>
  Surroundings in which the answers are fixed: an account found for \<^verbatim>\<open>github\<close> and for
  \<^verbatim>\<open>twitter\<close>, nothing found for \<^verbatim>\<open>reddit\<close>, no connection for \<^verbatim>\<open>hunter\<close>, a body that
  is not JSON for \<^verbatim>\<open>whatsapp\<close>, the body \<^verbatim>\<open>null\<close> for \<^verbatim>\<open>truecaller\<close>, and the answer of
  the offline server for every other key.
\<close>

definition staged :: environment where
  "staged =
     \<lparr>fetch = (\<lambda>n p query type.
        if p = ''github''
        then Inr \<lparr>http_status = 200, json_body = Inr (JObj
               [(''total_count'', JNum 1),
                (''items'', JArr [JObj [(''login'', JStr ''octocat''),
                                        (''html_url'', JStr ''https://github.com/octocat'')]])])\<rparr>
        else if p = ''twitter''
        then Inr \<lparr>http_status = 200, json_body = Inr (JObj
               [(''data'', JObj [(''username'', JStr ''octocat'')])])\<rparr>
        else if p = ''reddit''
        then Inr \<lparr>http_status = 200, json_body = Inr (JObj [(''found'', JBool False)])\<rparr>
        else if p = ''hunter''
        then Inl (TypeError ''Failed to fetch'')
        else if p = ''whatsapp''
        then Inr \<lparr>http_status = 200,
                  json_body = Inl (SyntaxError ''Unexpected end of JSON input'')\<rparr>
        else if p = ''truecaller''
        then Inr \<lparr>http_status = 200, json_body = Inr JNull\<rparr>
        else Inr (search_route offline_server p query type)),
      now = (\<lambda>n. ''2024-01-01T00:00:00.000Z''),
      positive = (\<lambda>s. False)\<rparr>"

section \<open>Basic facts about the formatters and one search\<close>


lemma bindE_Inr_iff: "bindE m f = Inr r \<longleftrightarrow> (\<exists>x. m = Inr x \<and> f x = Inr r)"
  by (cases m) (simp_all add: bindE_def)

lemma formatTruecallerResult_Inr:
  assumes "formatTruecallerResult ts data = Inr r"
  shows "platform r = ''TrueCaller'' \<and> (status r = ''found'' \<or> status r = ''not-found'')
         \<and> content r \<noteq> None"
  using assms by (auto simp: formatTruecallerResult_def bindE_Inr_iff split: if_splits)

lemma formatTwitterResult_Inr:
  assumes "formatTwitterResult ts data = Inr r"
  shows "platform r = ''Twitter'' \<and> (status r = ''found'' \<or> status r = ''not-found'')
         \<and> content r \<noteq> None"
  using assms by (auto simp: formatTwitterResult_def bindE_Inr_iff split: if_splits)

lemma formatGithubResult_Inr:
  assumes "formatGithubResult pos ts data = Inr r"
  shows "platform r = ''GitHub'' \<and> (status r = ''found'' \<or> status r = ''not-found'')
         \<and> content r \<noteq> None"
  using assms by (auto simp: formatGithubResult_def bindE_Inr_iff split: if_splits)

lemma formatWhatsAppResult_Inr:
  assumes "formatWhatsAppResult ts data = Inr r"
  shows "platform r = ''WhatsApp'' \<and> (status r = ''found'' \<or> status r = ''not-found'')
         \<and> content r \<noteq> None"
  using assms by (auto simp: formatWhatsAppResult_def bindE_Inr_iff split: if_splits)

lemma formatUPIResult_Inr:
  assumes "formatUPIResult ts data = Inr r"
  shows "platform r = ''UPI'' \<and> (status r = ''found'' \<or> status r = ''not-found'')
         \<and> content r \<noteq> None"
  using assms by (auto simp: formatUPIResult_def bindE_Inr_iff split: if_splits)

lemma formatDefaultResult_Inr:
  assumes "formatDefaultResult ts p data q t = Inr r"
  shows "platform r = p \<and> (status r = ''found'' \<or> status r = ''not-found'')
         \<and> content r \<noteq> None"
  using assms by (auto simp: formatDefaultResult_def bindE_Inr_iff split: if_splits)


lemma formatSearchResult_Inr:
  assumes "formatSearchResult pos ts p data q t = Inr r"
  shows "(status r = ''found'' \<or> status r = ''not-found'') \<and> content r \<noteq> None \<and>
         platform r =
           (if p = ''truecaller'' then ''TrueCaller'' else if p = ''twitter'' then ''Twitter''
            else if p = ''github'' then ''GitHub'' else if p = ''whatsapp'' then ''WhatsApp''
            else if p = ''upi'' then ''UPI'' else p)"
  using assms
    formatTruecallerResult_Inr [of ts data r] formatTwitterResult_Inr [of ts data r]
    formatGithubResult_Inr [of pos ts data r] formatWhatsAppResult_Inr [of ts data r]
    formatUPIResult_Inr [of ts data r] formatDefaultResult_Inr [of ts p data q t r]
  unfolding formatSearchResult_def
  by (simp split: if_splits)

lemma emit_simps [simp]:
  "trace (emit e w) = trace w @ [e]"
  "results (emit e w) = results w"
  "completedSearches (emit e w) = completedSearches w"
  "totalPlatforms (emit e w) = totalPlatforms w"
  "searchProgress (emit e w) = searchProgress w"
  by (simp_all add: emit_def)

lemma push_simps [simp]:
  "trace (push r w) = trace w"
  "results (push r w) = results w @ [r]"
  "completedSearches (push r w) = completedSearches w"
  "totalPlatforms (push r w) = totalPlatforms w"
  "searchProgress (push r w) = searchProgress w"
  by (simp_all add: push_def)

lemma errorResult_simps [simp]:
  "platform (errorResult p e ts) = p"
  "status (errorResult p e ts) = ''error''"
  "url (errorResult p e ts) = JNull"
  "description (errorResult p e ts) = JStr (''Error: '' @ message e)"
  "content (errorResult p e ts) = None"
  by (simp_all add: errorResult_def)

text \<open>The try block either pushes the formatted result or throws without pushing.\<close>

lemma searchPlatform_try_result:
  "(\<exists>r. searchPlatform_try env p q t w = (Inr r, push r (emit (Fetch p q t) w)) \<and>
        (\<exists>ts data. formatSearchResult (positive env) ts p data q t = Inr r)) \<or>
   (\<exists>e. searchPlatform_try env p q t w = (Inl e, emit (Fetch p q t) w))"
  unfolding searchPlatform_try_def Let_def
  by (cases "fetch env (length (trace w)) p q t") (auto split: sum.splits)

lemma searchPlatform_try_cases:
  obtains (formatted) r where
      "searchPlatform_try env p q t w = (Inr r, push r (emit (Fetch p q t) w))"
      "\<exists>ts data. formatSearchResult (positive env) ts p data q t = Inr r"
  | (thrown) e where
      "searchPlatform_try env p q t w = (Inl e, emit (Fetch p q t) w)"
  using searchPlatform_try_result [of env p q t w] by blast

lemma searchPlatform_cases:
  obtains (formatted) r where
      "searchPlatform_try env p q t w = (Inr r, push r (emit (Fetch p q t) w))"
      "searchPlatform env p q t w = (Inr r, push r (emit (Fetch p q t) w))"
      "\<exists>ts data. formatSearchResult (positive env) ts p data q t = Inr r"
  | (caught) e ts where
      "searchPlatform_try env p q t w = (Inl e, emit (Fetch p q t) w)"
      "searchPlatform env p q t w =
         (Inr (errorResult p e ts),
          push (errorResult p e ts)
            (emit (ConsoleError (''Error searching '' @ p @ '':'') e) (emit (Fetch p q t) w)))"
proof (cases rule: searchPlatform_try_cases [of env p q t w])
  case (formatted r)
  then show ?thesis
    using that(1) by (simp add: searchPlatform_def)
next
  case (thrown e)
  then show ?thesis
    using that(2) by (simp add: searchPlatform_def Let_def)
qed


lemma updateProgress_simps [simp]:
  "trace (updateProgress m x w) = trace w @ [Progress m x]"
  "results (updateProgress m x w) = results w"
  "completedSearches (updateProgress m x w) = completedSearches w"
  "totalPlatforms (updateProgress m x w) = totalPlatforms w"
  "searchProgress (updateProgress m x w) = searchProgress w"
  by (simp_all add: updateProgress_def)

lemma delay_simps [simp]:
  "trace (delay ms w) = trace w @ [Delay ms]"
  "results (delay ms w) = results w"
  "completedSearches (delay ms w) = completedSearches w"
  "totalPlatforms (delay ms w) = totalPlatforms w"
  "searchProgress (delay ms w) = searchProgress w"
  by (simp_all add: delay_def)

lemma iteration_of_search:
  assumes "searchPlatform env p q t
             (updateProgress (''Searching '' @ p @ ''...'') (percent_done w) w) = (Inr r, w2)"
  shows "iteration env q t p w =
           delay 1000 (updateProgress
             (''Searched '' @ show_nat (completedSearches w2 + 1) @ ''/''
                @ show_nat (totalPlatforms w2) @ '' platforms'')
             (percent_done (w2\<lparr>completedSearches := completedSearches w2 + 1\<rparr>))
             (w2\<lparr>completedSearches := completedSearches w2 + 1\<rparr>))"
  using assms by (simp add: iteration_def iteration_try_def Let_def)

text \<open>One turn of the loop never reaches the catch block of \<^verbatim>\<open>performSearch\<close>.\<close>

lemma iteration_shape:
  "\<exists>r errs w1.
     fst (searchPlatform env p q t w1) = Inr r \<and>
     results (iteration env q t p w) = results w @ [r] \<and>
     completedSearches (iteration env q t p w) = completedSearches w + 1 \<and>
     totalPlatforms (iteration env q t p w) = totalPlatforms w \<and>
     searchProgress (iteration env q t p w) = searchProgress w \<and>
     (errs = [] \<or> (\<exists>m e. errs = [ConsoleError m e])) \<and>
     trace (iteration env q t p w) =
       trace w @ [Progress (''Searching '' @ p @ ''...'') (percent_done w), Fetch p q t] @ errs @
         [Progress (''Searched '' @ show_nat (completedSearches w + 1) @ ''/''
                      @ show_nat (totalPlatforms w) @ '' platforms'')
            (of_nat (completedSearches w + 1) / of_nat (totalPlatforms w) * 100),
          Delay 1000]"
proof -
  define w1 where "w1 = updateProgress (''Searching '' @ p @ ''...'') (percent_done w) w"
  show ?thesis
  proof (cases rule: searchPlatform_cases [of env p q t w1])
    case (formatted r)
    show ?thesis
      using formatted(2) iteration_of_search [OF formatted(2) [unfolded w1_def]]
      by (intro exI [of _ r] exI [of _ "[]"] exI [of _ w1]) (simp add: w1_def percent_done_def)
  next
    case (caught e ts)
    show ?thesis
      using caught(2) iteration_of_search [OF caught(2) [unfolded w1_def]]
      by (intro exI [of _ "errorResult p e ts"]
            exI [of _ "[ConsoleError (''Error searching '' @ p @ '':'') e]"] exI [of _ w1])
         (simp add: w1_def percent_done_def)
  qed
qed


lemma progress_events_append [simp]:
  "progress_events (xs @ ys) = progress_events xs @ progress_events ys"
  by (induction xs rule: progress_events.induct) simp_all

lemma pacing_append [simp]: "pacing (xs @ ys) = pacing xs @ pacing ys"
  by (induction xs rule: pacing.induct) simp_all

lemma requests_append [simp]: "requests (xs @ ys) = requests xs @ requests ys"
  by (induction xs rule: requests.induct) simp_all

lemma requests_pacing: "requests (pacing es) = requests es"
  by (induction es rule: pacing.induct) simp_all

lemma requests_of_pacing:
  assumes "pacing evs = concat (map (\<lambda>p. [Fetch p q t, Delay d]) ps)"
  shows "requests evs = ps"
proof -
  have "requests (concat (map (\<lambda>p. [Fetch p q t, Delay d]) ps)) = ps"
    by (induction ps) simp_all
  with assms requests_pacing [of evs] show ?thesis by simp
qed

lemma percent_mono:
  "a \<le> b \<Longrightarrow> (of_nat a / of_nat n * 100 :: rat) \<le> of_nat b / of_nat n * 100"
  by (simp add: divide_right_mono)

lemma search_each_shape:
  "\<exists>rs evs.
     results (search_each env q t ps w) = results w @ rs \<and>
     list_all2 (\<lambda>p r. \<exists>w1. fst (searchPlatform env p q t w1) = Inr r) ps rs \<and>
     completedSearches (search_each env q t ps w) = completedSearches w + length ps \<and>
     totalPlatforms (search_each env q t ps w) = totalPlatforms w \<and>
     searchProgress (search_each env q t ps w) = searchProgress w \<and>
     trace (search_each env q t ps w) = trace w @ evs \<and>
     pacing evs = concat (map (\<lambda>p. [Fetch p q t, Delay 1000]) ps) \<and>
     sorted (map snd (progress_events evs)) \<and>
     (\<forall>x \<in> set (map snd (progress_events evs)).
        percent_done w \<le> x \<and>
        x \<le> of_nat (completedSearches w + length ps) / of_nat (totalPlatforms w) * 100)"
proof (induction ps arbitrary: w)
  case Nil
  show ?case by simp
next
  case (Cons p ps)
  let ?w' = "iteration env q t p w"
  let ?c = "completedSearches w" and ?n = "totalPlatforms w"
  from iteration_shape [of env p q t w] obtain r errs w1 where
    r: "fst (searchPlatform env p q t w1) = Inr r" and
    res: "results ?w' = results w @ [r]" and
    cnt: "completedSearches ?w' = ?c + 1" and
    tot: "totalPlatforms ?w' = ?n" and
    prog: "searchProgress ?w' = searchProgress w" and
    errs: "errs = [] \<or> (\<exists>m e. errs = [ConsoleError m e])" and
    tr: "trace ?w' =
       trace w @ [Progress (''Searching '' @ p @ ''...'') (percent_done w), Fetch p q t] @ errs @
         [Progress (''Searched '' @ show_nat (?c + 1) @ ''/'' @ show_nat ?n @ '' platforms'')
            (of_nat (?c + 1) / of_nat ?n * 100),
          Delay 1000]"
    by blast
  from Cons.IH [of ?w'] obtain rs evs where
    res': "results (search_each env q t ps ?w') = results ?w' @ rs" and
    rel': "list_all2 (\<lambda>p r. \<exists>w1. fst (searchPlatform env p q t w1) = Inr r) ps rs" and
    cnt': "completedSearches (search_each env q t ps ?w') = completedSearches ?w' + length ps" and
    tot': "totalPlatforms (search_each env q t ps ?w') = totalPlatforms ?w'" and
    prog': "searchProgress (search_each env q t ps ?w') = searchProgress ?w'" and
    tr': "trace (search_each env q t ps ?w') = trace ?w' @ evs" and
    pac': "pacing evs = concat (map (\<lambda>p. [Fetch p q t, Delay 1000]) ps)" and
    srt': "sorted (map snd (progress_events evs))" and
    bnd': "\<forall>x \<in> set (map snd (progress_events evs)).
        percent_done ?w' \<le> x \<and>
        x \<le> of_nat (completedSearches ?w' + length ps) / of_nat (totalPlatforms ?w') * 100"
    by blast
  let ?m1 = "''Searching '' @ p @ ''...''"
  let ?m2 = "''Searched '' @ show_nat (?c + 1) @ ''/'' @ show_nat ?n @ '' platforms''"
  let ?x2 = "of_nat (?c + 1) / of_nat ?n * 100 :: rat"
  let ?evs = "[Progress ?m1 (percent_done w), Fetch p q t] @ errs @ [Progress ?m2 ?x2, Delay 1000] @ evs"
  have pe_errs: "progress_events errs = []" and pac_errs: "pacing errs = []"
    using errs by auto
  have pd: "percent_done w = of_nat ?c / of_nat ?n * 100"
    by (simp add: percent_done_def)
  have pd': "percent_done ?w' = ?x2"
    by (simp add: percent_done_def cnt tot)
  have step: "percent_done w \<le> ?x2"
    unfolding pd by (rule percent_mono) simp
  have upper: "?x2 \<le> of_nat (?c + length (p # ps)) / of_nat ?n * 100"
    by (rule percent_mono) simp
  have pe: "map snd (progress_events ?evs) = percent_done w # ?x2 # map snd (progress_events evs)"
    by (simp add: pe_errs)
  have bnd'': "\<forall>x \<in> set (map snd (progress_events evs)).
        ?x2 \<le> x \<and> x \<le> of_nat (?c + length (p # ps)) / of_nat ?n * 100"
    using bnd' by (simp add: pd' cnt tot)
  have "results (search_each env q t (p # ps) w) = results w @ (r # rs)"
    by (simp add: res' res)
  moreover have "list_all2 (\<lambda>p r. \<exists>w1. fst (searchPlatform env p q t w1) = Inr r) (p # ps) (r # rs)"
    using r rel' by auto
  moreover have "completedSearches (search_each env q t (p # ps) w) = ?c + length (p # ps)"
    by (simp add: cnt' cnt)
  moreover have "totalPlatforms (search_each env q t (p # ps) w) = ?n"
    by (simp add: tot' tot)
  moreover have "searchProgress (search_each env q t (p # ps) w) = searchProgress w"
    by (simp add: prog' prog)
  moreover have "trace (search_each env q t (p # ps) w) = trace w @ ?evs"
    by (simp add: tr' tr)
  moreover have "pacing ?evs = concat (map (\<lambda>p. [Fetch p q t, Delay 1000]) (p # ps))"
    by (simp add: pac_errs pac')
  moreover have "sorted (map snd (progress_events ?evs))"
    unfolding pe using srt' bnd'' step by auto
  moreover have "\<forall>x \<in> set (map snd (progress_events ?evs)).
        percent_done w \<le> x \<and> x \<le> of_nat (?c + length (p # ps)) / of_nat ?n * 100"
    unfolding pe using bnd'' step upper by (auto intro: order_trans)
  ultimately show ?case by blast
qed

lemma show_nat_500: "show_nat 500 = ''500''"
  by code_simp

section \<open>A whole run\<close>

lemma searchPlatform_status:
  assumes "fst (searchPlatform env p q t w) = Inr r"
  shows "status r = ''found'' \<or> status r = ''not-found'' \<or> status r = ''error''"
proof (cases rule: searchPlatform_cases [of env p q t w])
  case (formatted r')
  then obtain ts data where "formatSearchResult (positive env) ts p data q t = Inr r'"
    by blast
  from formatSearchResult_Inr [OF this] formatted(2) assms show ?thesis
    by auto
next
  case (caught e ts)
  then show ?thesis using assms by auto
qed


lemma performSearch_abort:
  assumes "trim query = [] \<or> type \<notin> set search_types"
  shows "performSearch env query type ps w =
           (Inl (Error (if trim query = [] then ''Search query cannot be empty''
                        else ''Invalid search type'')),
            w\<lparr>results := [], searchProgress := 0, completedSearches := 0,
              totalPlatforms := length ps\<rparr>)"
proof (cases "trim query = []")
  case True
  then show ?thesis unfolding performSearch_def Let_def by simp
next
  case False
  with assms have "type \<notin> set search_types" by simp
  moreover from False have "query \<noteq> []" by (auto simp: trim_def)
  ultimately show ?thesis using False unfolding performSearch_def Let_def by simp
qed

lemma searchPlatform_platform:
  assumes "fst (searchPlatform env p q t w) = Inr r"
  shows "platform r =
           (if status r = ''error'' then p
            else if p = ''truecaller'' then ''TrueCaller'' else if p = ''twitter'' then ''Twitter''
            else if p = ''github'' then ''GitHub'' else if p = ''whatsapp'' then ''WhatsApp''
            else if p = ''upi'' then ''UPI'' else p)"
proof (cases rule: searchPlatform_cases [of env p q t w])
  case (formatted r')
  then obtain ts data where "formatSearchResult (positive env) ts p data q t = Inr r'"
    by blast
  from formatSearchResult_Inr [OF this]
  have "status r' \<noteq> ''error''" and
    "platform r' =
       (if p = ''truecaller'' then ''TrueCaller'' else if p = ''twitter'' then ''Twitter''
        else if p = ''github'' then ''GitHub'' else if p = ''whatsapp'' then ''WhatsApp''
        else if p = ''upi'' then ''UPI'' else p)"
    by auto
  moreover have "r = r'" using formatted(2) assms by simp
  ultimately show ?thesis by simp
next
  case (caught e ts)
  then have "r = errorResult p e ts" using assms by simp
  then show ?thesis by simp
qed

lemma performSearch_valid:
  assumes "trim query \<noteq> []" and "type \<in> set search_types"
  shows "performSearch env query type ps w =
          (let w1 = updateProgress ''Initializing search...'' 0
                      (w\<lparr>results := [], searchProgress := 0, completedSearches := 0,
                         totalPlatforms := length ps\<rparr>);
               w2 = search_each env query type ps w1;
               w3 = updateProgress ''Search completed!'' 100 w2
           in (Inr (results w3), w3))"
proof -
  have q: "query \<noteq> []" using assms(1) by (auto simp: trim_def)
  have ty: "type \<noteq> []" using assms(2) by (auto simp: search_types_def)
  show ?thesis
    unfolding performSearch_def Let_def using assms q ty by simp
qed

lemma performSearch_run:
  assumes "trim query \<noteq> []" and "type \<in> set search_types"
  shows "\<exists>rs evs w'.
     performSearch env query type ps w = (Inr rs, w') \<and>
     results w' = rs \<and>
     list_all2 (\<lambda>p r. \<exists>w1. fst (searchPlatform env p query type w1) = Inr r) ps rs \<and>
     completedSearches w' = length ps \<and>
     totalPlatforms w' = length ps \<and>
     searchProgress w' = 0 \<and>
     trace w' = trace w @ [Progress ''Initializing search...'' 0] @ evs
                  @ [Progress ''Search completed!'' 100] \<and>
     pacing evs = concat (map (\<lambda>p. [Fetch p query type, Delay 1000]) ps) \<and>
     sorted (map snd (progress_events evs)) \<and>
     (\<forall>x \<in> set (map snd (progress_events evs)). 0 \<le> x \<and> x \<le> 100)"
proof -
  define w0 where "w0 = w\<lparr>results := [], searchProgress := 0, completedSearches := 0,
                  totalPlatforms := length ps\<rparr>"
  define w1 where "w1 = updateProgress ''Initializing search...'' 0 w0"
  have run: "performSearch env query type ps w =
          (Inr (results (search_each env query type ps w1)),
           updateProgress ''Search completed!'' 100 (search_each env query type ps w1))"
    unfolding performSearch_valid [OF assms] w1_def w0_def Let_def by simp
  from search_each_shape [of env query type ps w1] obtain rs evs where
    res: "results (search_each env query type ps w1) = results w1 @ rs" and
    rel: "list_all2 (\<lambda>p r. \<exists>w1. fst (searchPlatform env p query type w1) = Inr r) ps rs" and
    cnt: "completedSearches (search_each env query type ps w1) = completedSearches w1 + length ps" and
    tot: "totalPlatforms (search_each env query type ps w1) = totalPlatforms w1" and
    prog: "searchProgress (search_each env query type ps w1) = searchProgress w1" and
    tr: "trace (search_each env query type ps w1) = trace w1 @ evs" and
    pac: "pacing evs = concat (map (\<lambda>p. [Fetch p query type, Delay 1000]) ps)" and
    srt: "sorted (map snd (progress_events evs))" and
    bnd: "\<forall>x \<in> set (map snd (progress_events evs)).
        percent_done w1 \<le> x \<and>
        x \<le> of_nat (completedSearches w1 + length ps) / of_nat (totalPlatforms w1) * 100"
    by blast
  have w1_fields: "results w1 = []" "completedSearches w1 = 0" "totalPlatforms w1 = length ps"
    "searchProgress w1 = 0" "trace w1 = trace w @ [Progress ''Initializing search...'' 0]"
    by (simp_all add: w1_def w0_def)
  have lo: "percent_done w1 = 0"
    by (simp add: percent_done_def w1_fields)
  have bnd': "\<forall>x \<in> set (map snd (progress_events evs)). 0 \<le> x \<and> x \<le> 100"
  proof
    fix x assume "x \<in> set (map snd (progress_events evs))"
    with bnd have "percent_done w1 \<le> x"
      and "x \<le> of_nat (completedSearches w1 + length ps) / of_nat (totalPlatforms w1) * 100"
      by auto
    moreover have "(of_nat (completedSearches w1 + length ps) / of_nat (totalPlatforms w1) * 100 :: rat) \<le> 100"
      by (simp add: w1_fields)
    ultimately show "0 \<le> x \<and> x \<le> 100"
      using lo by simp
  qed
  show ?thesis
    using run res rel cnt tot prog tr pac srt bnd'
    by (intro exI [of _ rs] exI [of _ evs]
          exI [of _ "updateProgress ''Search completed!'' 100 (search_each env query type ps w1)"])
       (simp add: w1_fields)
qed

section \<open>An unknown platform at the server\<close>

lemma pacing_nth:
  "i < length ps \<Longrightarrow>
     concat (map (\<lambda>p. [f p, d]) ps) ! (2 * i) = f (ps ! i) \<and>
     concat (map (\<lambda>p. [f p, d]) ps) ! (2 * i + 1) = d"
proof (induction ps arbitrary: i)
  case Nil
  then show ?case by simp
next
  case (Cons p ps)
  show ?case
  proof (cases i)
    case 0
    then show ?thesis by simp
  next
    case (Suc j)
    with Cons.prems have "j < length ps" by simp
    from Cons.IH [OF this] Suc show ?thesis by simp
  qed
qed

lemma handlePlatformSearch_unsupported:
  assumes "p \<notin> set server_platforms"
  shows "handlePlatformSearch srv p query type =
           Inl (Error (''Platform '' @ p @ '' not supported''))"
  using assms unfolding handlePlatformSearch_def server_platforms_def by simp

lemma search_route_unsupported:
  assumes "p \<notin> set server_platforms" and "query \<noteq> []"
  shows "http_status (search_route srv p query type) = 500"
  using assms handlePlatformSearch_unsupported [OF assms(1)]
  unfolding search_route_def Let_def by simp

lemma searchPlatform_unsupported:
  assumes "served_by srv env" and "plain_key p" and "p \<notin> set server_platforms"
    and "query \<noteq> []" and "fst (searchPlatform env p query type w) = Inr r"
  shows "platform r = p \<and> status r = ''error'' \<and>
         description r = JStr ''Error: HTTP error! status: 500'' \<and> content r = None"
proof -
  have f: "fetch env (length (trace w)) p query type = Inr (search_route srv p query type)"
    using assms(1,2) by (simp add: served_by_def)
  have "\<not> ok (search_route srv p query type)"
    using search_route_unsupported [OF assms(3,4)] by (simp add: ok_def)
  with f have attempt: "searchPlatform_try env p query type w =
      (Inl (Error (''HTTP error! status: '' @ show_nat 500)), emit (Fetch p query type) w)"
    using search_route_unsupported [OF assms(3,4), of srv type]
    by (simp add: searchPlatform_try_def Let_def)
  show ?thesis
  proof (cases rule: searchPlatform_cases [of env p query type w])
    case (formatted r')
    with attempt show ?thesis by simp
  next
    case (caught e ts)
    with attempt assms(5) show ?thesis by (auto simp: show_nat_500)
  qed
qed

section \<open>The claims\<close>

text \<open>
  C1. For a query that passes the checks of \<^verbatim>\<open>performSearch\<close> (not blank, type among the
  four kinds) and any list of platforms, \<^verbatim>\<open>performSearch\<close> returns a list with exactly one
  entry per requested platform: every platform is requested once, in order, there are as
  many entries as platforms, and the entry at position \<open>i\<close> is what \<^verbatim>\<open>searchPlatform\<close>
  returned for the platform at position \<open>i\<close>, with status found, not-found or error; the
  returned list is the engine's results and the completed counter equals the number of
  platforms.
\<close>

theorem performSearch_one_result_per_platform:
  assumes "trim query \<noteq> []" and "type \<in> set search_types"
  shows "\<exists>rs w' evs.
     performSearch env query type ps w = (Inr rs, w') \<and>
     length rs = length ps \<and>
     results w' = rs \<and>
     completedSearches w' = length ps \<and>
     trace w' = trace w @ evs \<and>
     requests evs = ps \<and>
     (\<forall>i < length ps.
        (\<exists>w1. fst (searchPlatform env (ps ! i) query type w1) = Inr (rs ! i)) \<and>
        (status (rs ! i) = ''found'' \<or> status (rs ! i) = ''not-found''
           \<or> status (rs ! i) = ''error''))"
proof -
  from performSearch_run [OF assms, of env ps w] obtain rs evs w' where
    run: "performSearch env query type ps w = (Inr rs, w')" and
    res: "results w' = rs" and
    rel: "list_all2 (\<lambda>p r. \<exists>w1. fst (searchPlatform env p query type w1) = Inr r) ps rs" and
    cnt: "completedSearches w' = length ps" and
    tr: "trace w' = trace w @ [Progress ''Initializing search...'' 0] @ evs
                  @ [Progress ''Search completed!'' 100]" and
    pac: "pacing evs = concat (map (\<lambda>p. [Fetch p query type, Delay 1000]) ps)"
    by blast
  let ?all = "[Progress ''Initializing search...'' 0] @ evs @ [Progress ''Search completed!'' 100]"
  have req: "requests ?all = ps"
    using requests_of_pacing [OF pac] by simp
  have len: "length rs = length ps"
    using rel by (simp add: list_all2_lengthD)
  have each: "(\<exists>w1. fst (searchPlatform env (ps ! i) query type w1) = Inr (rs ! i)) \<and>
        (status (rs ! i) = ''found'' \<or> status (rs ! i) = ''not-found''
           \<or> status (rs ! i) = ''error'')" if "i < length ps" for i
  proof -
    from list_all2_nthD [OF rel that]
    obtain w1 where w1: "fst (searchPlatform env (ps ! i) query type w1) = Inr (rs ! i)"
      by blast
    from searchPlatform_status [OF w1] w1 show ?thesis by blast
  qed
  show ?thesis
    using run len res cnt tr req each
    by (intro exI [of _ rs] exI [of _ w'] exI [of _ ?all]) simp
qed

theorem performSearch_one_result_per_platform_witness:
  "trim ''octocat'' \<noteq> [] \<and> ''username'' \<in> set search_types \<and>
   (\<exists>rs w' evs.
      performSearch staged ''octocat'' ''username'' [''github'', ''reddit'', ''unknown-platform'']
        fresh = (Inr rs, w') \<and>
      length rs = 3 \<and> results w' = rs \<and> completedSearches w' = 3 \<and>
      trace w' = trace fresh @ evs \<and>
      requests evs = [''github'', ''reddit'', ''unknown-platform''])"
proof -
  have h1: "trim ''octocat'' \<noteq> []" by code_simp
  have h2: "''username'' \<in> set search_types" by (simp add: search_types_def)
  from performSearch_one_result_per_platform [OF h1 h2, of staged
      "[''github'', ''reddit'', ''unknown-platform'']" fresh]
  show ?thesis using h1 h2 by auto
qed

text \<open>
  C2 (amended). \<^verbatim>\<open>performSearch\<close> raises before anything is requested exactly when the query
  is empty or blank or the type is not one of the four kinds; otherwise it runs every
  platform. The checks by format are those of \<^verbatim>\<open>validateSearchInput\<close>, which raises for the
  email \<^verbatim>\<open>not-an-email\<close>, the phone \<^verbatim>\<open>123\<close>, the username \<^verbatim>\<open>ab\<close> and the name \<^verbatim>\<open>a\<close>, and which
  \<^verbatim>\<open>performSearch\<close> does not call.
\<close>

theorem performSearch_validation:
  "(trim query = [] \<longrightarrow>
      fst (performSearch env query type ps w) = Inl (Error ''Search query cannot be empty'') \<and>
      trace (snd (performSearch env query type ps w)) = trace w \<and>
      results (snd (performSearch env query type ps w)) = []) \<and>
   (trim query \<noteq> [] \<and> type \<notin> set search_types \<longrightarrow>
      fst (performSearch env query type ps w) = Inl (Error ''Invalid search type'') \<and>
      trace (snd (performSearch env query type ps w)) = trace w \<and>
      results (snd (performSearch env query type ps w)) = []) \<and>
   (trim query \<noteq> [] \<and> type \<in> set search_types \<longrightarrow>
      (\<exists>evs. fst (performSearch env query type ps w) =
                Inr (results (snd (performSearch env query type ps w))) \<and>
              trace (snd (performSearch env query type ps w)) = trace w @ evs \<and>
              requests evs = ps)) \<and>
   validateSearchInput ''not-an-email'' ''email'' = Inl (Error ''Invalid email format'') \<and>
   validateSearchInput ''123'' ''phone'' = Inl (Error ''Invalid phone number format'') \<and>
   validateSearchInput ''ab'' ''username''
     = Inl (Error ''Username must be at least 3 characters long'') \<and>
   validateSearchInput ''a'' ''name'' = Inl (Error ''Name must be at least 2 characters long'')"
proof -
  have blank: "fst (performSearch env query type ps w)
        = Inl (Error ''Search query cannot be empty'') \<and>
      trace (snd (performSearch env query type ps w)) = trace w \<and>
      results (snd (performSearch env query type ps w)) = []"
    if "trim query = []"
  proof -
    from that have "trim query = [] \<or> type \<notin> set search_types" by simp
    from performSearch_abort [OF this, of env ps w] that show ?thesis by simp
  qed
  have kind: "fst (performSearch env query type ps w) = Inl (Error ''Invalid search type'') \<and>
      trace (snd (performSearch env query type ps w)) = trace w \<and>
      results (snd (performSearch env query type ps w)) = []"
    if "trim query \<noteq> [] \<and> type \<notin> set search_types"
  proof -
    from that have "trim query = [] \<or> type \<notin> set search_types" by simp
    from performSearch_abort [OF this, of env ps w] that show ?thesis by simp
  qed
  have proceed: "\<exists>evs. fst (performSearch env query type ps w) =
                Inr (results (snd (performSearch env query type ps w))) \<and>
              trace (snd (performSearch env query type ps w)) = trace w @ evs \<and>
              requests evs = ps"
    if "trim query \<noteq> [] \<and> type \<in> set search_types"
  proof -
    from that have valid: "trim query \<noteq> []" "type \<in> set search_types" by simp_all
    from performSearch_run [OF valid, of env ps w] obtain rs evs w' where
      run: "performSearch env query type ps w = (Inr rs, w')" and
      res: "results w' = rs" and
      tr: "trace w' = trace w @ [Progress ''Initializing search...'' 0] @ evs
                  @ [Progress ''Search completed!'' 100]" and
      pac: "pacing evs = concat (map (\<lambda>p. [Fetch p query type, Delay 1000]) ps)"
      by blast
    show ?thesis
      using run res tr requests_of_pacing [OF pac]
      by (intro exI [of _ "[Progress ''Initializing search...'' 0] @ evs
                  @ [Progress ''Search completed!'' 100]"]) simp
  qed
  have email: "validateSearchInput ''not-an-email'' ''email'' = Inl (Error ''Invalid email format'')"
    by code_simp
  have phone: "validateSearchInput ''123'' ''phone'' = Inl (Error ''Invalid phone number format'')"
    by code_simp
  have username: "validateSearchInput ''ab'' ''username''
     = Inl (Error ''Username must be at least 3 characters long'')"
    by code_simp
  have name: "validateSearchInput ''a'' ''name''
     = Inl (Error ''Name must be at least 2 characters long'')"
    by code_simp
  from blank kind proceed email phone username name show ?thesis by blast
qed

theorem performSearch_validation_witness:
  "trim ''   '' = [] \<and>
   fst (performSearch staged ''   '' ''email'' [''github''] fresh)
     = Inl (Error ''Search query cannot be empty'') \<and>
   trace (snd (performSearch staged ''   '' ''email'' [''github''] fresh)) = trace fresh \<and>
   trim ''octocat'' \<noteq> [] \<and> ''nickname'' \<notin> set search_types \<and>
   fst (performSearch staged ''octocat'' ''nickname'' [''github''] fresh)
     = Inl (Error ''Invalid search type'') \<and>
   trim ''not-an-email'' \<noteq> [] \<and> ''email'' \<in> set search_types \<and>
   (\<exists>evs. trace (snd (performSearch staged ''not-an-email'' ''email'' [''github''] fresh))
             = trace fresh @ evs \<and>
          requests evs = [''github''])"
proof -
  have h1: "trim ''   '' = []" by code_simp
  have h2: "trim ''not-an-email'' \<noteq> []" by code_simp
  have h3: "''email'' \<in> set search_types" by (simp add: search_types_def)
  have h4: "trim ''octocat'' \<noteq> []" by code_simp
  have h5: "''nickname'' \<notin> set search_types" by (simp add: search_types_def)
  from performSearch_validation [where query = "''   ''" and type = "''email''" and env = staged
      and ps = "[''github'']" and w = fresh] h1
  have a: "fst (performSearch staged ''   '' ''email'' [''github''] fresh)
     = Inl (Error ''Search query cannot be empty'') \<and>
   trace (snd (performSearch staged ''   '' ''email'' [''github''] fresh)) = trace fresh"
    by blast
  from performSearch_validation [where query = "''octocat''" and type = "''nickname''"
      and env = staged and ps = "[''github'']" and w = fresh] h4 h5
  have b: "fst (performSearch staged ''octocat'' ''nickname'' [''github''] fresh)
     = Inl (Error ''Invalid search type'')"
    by blast
  from performSearch_validation [where query = "''not-an-email''" and type = "''email''"
      and env = staged and ps = "[''github'']" and w = fresh] h2 h3
  have c: "\<exists>evs. trace (snd (performSearch staged ''not-an-email'' ''email'' [''github''] fresh))
             = trace fresh @ evs \<and>
          requests evs = [''github'']"
    by blast
  from a b c h1 h2 h3 h4 h5 show ?thesis by blast
qed

text \<open>
  C2 as stated fails: the email \<^verbatim>\<open>not-an-email\<close> fails the check by format, and
  \<^verbatim>\<open>performSearch\<close> requests the platform.
\<close>

theorem performSearch_validation_counterexample:
  "validateSearchInput ''not-an-email'' ''email'' = Inl (Error ''Invalid email format'') \<and>
   fst (performSearch staged ''not-an-email'' ''email'' [''twitter''] fresh) =
     Inr (results (snd (performSearch staged ''not-an-email'' ''email'' [''twitter''] fresh))) \<and>
   requests (trace (snd (performSearch staged ''not-an-email'' ''email'' [''twitter''] fresh))) =
     [''twitter'']"
  by code_simp

text \<open>
  C3 (amended). Results are in the order of the supplied platforms, and the platform
  field of the entry at position \<open>i\<close> is the key at position \<open>i\<close> when the entry is an
  error and for every key without a formatter of its own; for the keys \<^verbatim>\<open>truecaller\<close>,
  \<^verbatim>\<open>twitter\<close>, \<^verbatim>\<open>github\<close>, \<^verbatim>\<open>whatsapp\<close> and \<^verbatim>\<open>upi\<close> an entry that is not an error carries the
  display name \<^verbatim>\<open>TrueCaller\<close>, \<^verbatim>\<open>Twitter\<close>, \<^verbatim>\<open>GitHub\<close>, \<^verbatim>\<open>WhatsApp\<close> or \<^verbatim>\<open>UPI\<close>.
\<close>

theorem result_platform_names:
  assumes "trim query \<noteq> []" and "type \<in> set search_types"
  shows "\<exists>rs w'.
     performSearch env query type ps w = (Inr rs, w') \<and>
     length rs = length ps \<and>
     (\<forall>i < length ps.
        platform (rs ! i) =
          (if status (rs ! i) = ''error'' then ps ! i
           else if ps ! i = ''truecaller'' then ''TrueCaller''
           else if ps ! i = ''twitter'' then ''Twitter''
           else if ps ! i = ''github'' then ''GitHub''
           else if ps ! i = ''whatsapp'' then ''WhatsApp''
           else if ps ! i = ''upi'' then ''UPI''
           else ps ! i))"
proof -
  from performSearch_run [OF assms, of env ps w] obtain rs w' where
    run: "performSearch env query type ps w = (Inr rs, w')" and
    rel: "list_all2 (\<lambda>p r. \<exists>w1. fst (searchPlatform env p query type w1) = Inr r) ps rs"
    by blast
  have len: "length rs = length ps"
    using rel by (simp add: list_all2_lengthD)
  have "platform (rs ! i) =
          (if status (rs ! i) = ''error'' then ps ! i
           else if ps ! i = ''truecaller'' then ''TrueCaller''
           else if ps ! i = ''twitter'' then ''Twitter''
           else if ps ! i = ''github'' then ''GitHub''
           else if ps ! i = ''whatsapp'' then ''WhatsApp''
           else if ps ! i = ''upi'' then ''UPI''
           else ps ! i)" if "i < length ps" for i
  proof -
    from list_all2_nthD [OF rel that]
    obtain w1 where "fst (searchPlatform env (ps ! i) query type w1) = Inr (rs ! i)"
      by blast
    then show ?thesis by (rule searchPlatform_platform)
  qed
  with run len show ?thesis by blast
qed

theorem result_platform_names_witness:
  "trim ''octocat'' \<noteq> [] \<and> ''username'' \<in> set search_types \<and>
   (\<exists>rs w'.
      performSearch staged ''octocat'' ''username'' [''twitter'', ''reddit''] fresh = (Inr rs, w') \<and>
      length rs = length [''twitter'', ''reddit''] \<and>
      (\<forall>i < length [''twitter'', ''reddit''].
        platform (rs ! i) =
          (if status (rs ! i) = ''error'' then [''twitter'', ''reddit''] ! i
           else if [''twitter'', ''reddit''] ! i = ''truecaller'' then ''TrueCaller''
           else if [''twitter'', ''reddit''] ! i = ''twitter'' then ''Twitter''
           else if [''twitter'', ''reddit''] ! i = ''github'' then ''GitHub''
           else if [''twitter'', ''reddit''] ! i = ''whatsapp'' then ''WhatsApp''
           else if [''twitter'', ''reddit''] ! i = ''upi'' then ''UPI''
           else [''twitter'', ''reddit''] ! i)))"
proof -
  have h1: "trim ''octocat'' \<noteq> []" by code_simp
  have h2: "''username'' \<in> set search_types" by (simp add: search_types_def)
  from result_platform_names [OF h1 h2, of staged "[''twitter'', ''reddit'']" fresh]
  show ?thesis using h1 h2 by blast
qed

text \<open>
  C3 as stated fails: a successful search of \<^verbatim>\<open>twitter\<close> is recorded under \<^verbatim>\<open>Twitter\<close>.
\<close>

theorem result_platform_counterexample:
  "fst (performSearch staged ''octocat'' ''username'' [''twitter''] fresh) =
     Inr (results (snd (performSearch staged ''octocat'' ''username'' [''twitter''] fresh))) \<and>
   platform (results (snd (performSearch staged ''octocat'' ''username'' [''twitter''] fresh)) ! 0)
     = ''Twitter'' \<and>
   platform (results (snd (performSearch staged ''octocat'' ''username'' [''twitter''] fresh)) ! 0)
     \<noteq> [''twitter''] ! 0"
  by code_simp

text \<open>
  C4 (amended). The engine keeps no registry of adapters: an unknown platform is requested
  like any other. The statement is for a run that passes the checks of \<^verbatim>\<open>performSearch\<close>
  and a platform key that
  \<^item> is none of the eight keys the server knows,
  \<^item> is one plain path segment (not empty, only letters, digits, \<^verbatim>\<open>-\<close> and \<^verbatim>\<open>_\<close>), so that
    the request reaches the handler with this key, and
  \<^item> under surroundings in which the requests with plain keys are answered by the handler
    of \<^verbatim>\<open>POST /api/search/:platform\<close> itself (not by the rate limiter in front of it, which
    answers 429, and not by a failing network).

  Then the handler's helper throws \<^verbatim>\<open>Platform <key> not supported\<close>, the answer has status
  500, and the engine records for that platform a result with status error and
  description \<^verbatim>\<open>Error: HTTP error! status: 500\<close>; the run goes on, and the wait of 1000 ms
  stands between that request and the request for the next platform.
\<close>

theorem unsupported_platform_recorded:
  assumes "trim query \<noteq> []" and "type \<in> set search_types"
    and "served_by srv env"
    and "i < length ps" and "plain_key (ps ! i)" and "ps ! i \<notin> set server_platforms"
  shows "handlePlatformSearch srv (ps ! i) query type =
           Inl (Error (''Platform '' @ ps ! i @ '' not supported'')) \<and>
         (\<exists>rs w' evs.
            performSearch env query type ps w = (Inr rs, w') \<and>
            length rs = length ps \<and>
            platform (rs ! i) = ps ! i \<and>
            status (rs ! i) = ''error'' \<and>
            description (rs ! i) = JStr ''Error: HTTP error! status: 500'' \<and>
            content (rs ! i) = None \<and>
            trace w' = trace w @ evs \<and>
            pacing evs ! (2 * i) = Fetch (ps ! i) query type \<and>
            (Suc i < length ps \<longrightarrow>
               pacing evs ! (2 * i + 1) = Delay 1000 \<and>
               pacing evs ! (2 * i + 2) = Fetch (ps ! Suc i) query type))"
proof -
  have q: "query \<noteq> []" using assms(1) by (auto simp: trim_def)
  from performSearch_run [OF assms(1,2), of env ps w] obtain rs evs w' where
    run: "performSearch env query type ps w = (Inr rs, w')" and
    rel: "list_all2 (\<lambda>p r. \<exists>w1. fst (searchPlatform env p query type w1) = Inr r) ps rs" and
    tr: "trace w' = trace w @ [Progress ''Initializing search...'' 0] @ evs
                  @ [Progress ''Search completed!'' 100]" and
    pac: "pacing evs = concat (map (\<lambda>p. [Fetch p query type, Delay 1000]) ps)"
    by blast
  let ?all = "[Progress ''Initializing search...'' 0] @ evs @ [Progress ''Search completed!'' 100]"
  have pac_all: "pacing ?all = concat (map (\<lambda>p. [Fetch p query type, Delay 1000]) ps)"
    using pac by simp
  have len: "length rs = length ps"
    using rel by (simp add: list_all2_lengthD)
  from list_all2_nthD [OF rel assms(4)]
  obtain w1 where "fst (searchPlatform env (ps ! i) query type w1) = Inr (rs ! i)"
    by blast
  from searchPlatform_unsupported [OF assms(3,5,6) q this]
  have entry: "platform (rs ! i) = ps ! i \<and> status (rs ! i) = ''error'' \<and>
         description (rs ! i) = JStr ''Error: HTTP error! status: 500'' \<and> content (rs ! i) = None" .
  have here: "pacing ?all ! (2 * i) = Fetch (ps ! i) query type"
    "pacing ?all ! (2 * i + 1) = Delay 1000"
    unfolding pac_all
    using pacing_nth [OF assms(4), of "\<lambda>p. Fetch p query type" "Delay 1000"] by simp_all
  have next_one: "pacing ?all ! (2 * i + 2) = Fetch (ps ! Suc i) query type"
    if "Suc i < length ps"
    unfolding pac_all
    using pacing_nth [OF that, of "\<lambda>p. Fetch p query type" "Delay 1000"] by simp
  show ?thesis
    using handlePlatformSearch_unsupported [OF assms(6), of srv query type]
      run len entry tr here next_one
    by (intro conjI exI [of _ rs] exI [of _ w'] exI [of _ ?all]) simp_all
qed


theorem unsupported_platform_recorded_witness:
  "trim ''octocat'' \<noteq> [] \<and> ''username'' \<in> set search_types \<and>
   served_by offline_server (served offline_server) \<and>
   1 < length [''github'', ''unknown-platform'', ''reddit''] \<and>
   plain_key ([''github'', ''unknown-platform'', ''reddit''] ! 1) \<and>
   [''github'', ''unknown-platform'', ''reddit''] ! 1 \<notin> set server_platforms \<and>
   (\<exists>rs w' evs.
      performSearch (served offline_server) ''octocat'' ''username''
        [''github'', ''unknown-platform'', ''reddit''] fresh = (Inr rs, w') \<and>
      length rs = 3 \<and>
      status (rs ! 1) = ''error'' \<and>
      description (rs ! 1) = JStr ''Error: HTTP error! status: 500'' \<and>
      trace w' = trace fresh @ evs \<and>
      pacing evs ! 3 = Delay 1000 \<and>
      pacing evs ! 4 = Fetch ''reddit'' ''octocat'' ''username'')"
proof -
  have h1: "trim ''octocat'' \<noteq> []" by code_simp
  have h2: "''username'' \<in> set search_types" by (simp add: search_types_def)
  have h3: "served_by offline_server (served offline_server)"
    by (simp add: served_by_def served_def)
  have h4: "1 < length [''github'', ''unknown-platform'', ''reddit'']" by simp
  have h5: "plain_key ([''github'', ''unknown-platform'', ''reddit''] ! 1)"
    by (simp add: plain_key_def)
  have h6: "[''github'', ''unknown-platform'', ''reddit''] ! 1 \<notin> set server_platforms"
    by (simp add: server_platforms_def)
  from unsupported_platform_recorded [OF h1 h2 h3 h4 h5 h6, of fresh]
  obtain rs w' evs where
    "performSearch (served offline_server) ''octocat'' ''username''
        [''github'', ''unknown-platform'', ''reddit''] fresh = (Inr rs, w')"
    "length rs = 3" "status (rs ! 1) = ''error''"
    "description (rs ! 1) = JStr ''Error: HTTP error! status: 500''"
    "trace w' = trace fresh @ evs"
    "pacing evs ! 3 = Delay 1000"
    "pacing evs ! 4 = Fetch ''reddit'' ''octocat'' ''username''"
    by auto
  then show ?thesis using h1 h2 h3 h4 h5 h6 by blast
qed

text \<open>
  C4 as stated fails: the description recorded for \<^verbatim>\<open>unknown-platform\<close> is not
  \<^verbatim>\<open>platform not supported\<close>, and a wait follows its request before the next platform.
\<close>

theorem unsupported_platform_counterexample:
  "status (results (snd (performSearch (served offline_server) ''octocat'' ''username''
             [''github'', ''unknown-platform'', ''reddit''] fresh)) ! 1) = ''error'' \<and>
   description (results (snd (performSearch (served offline_server) ''octocat'' ''username''
             [''github'', ''unknown-platform'', ''reddit''] fresh)) ! 1)
     = JStr ''Error: HTTP error! status: 500'' \<and>
   description (results (snd (performSearch (served offline_server) ''octocat'' ''username''
             [''github'', ''unknown-platform'', ''reddit''] fresh)) ! 1)
     \<noteq> JStr ''platform not supported'' \<and>
   take 5 (pacing (trace (snd (performSearch (served offline_server) ''octocat'' ''username''
             [''github'', ''unknown-platform'', ''reddit''] fresh)))) =
     [Fetch ''github'' ''octocat'' ''username'', Delay 1000,
      Fetch ''unknown-platform'' ''octocat'' ''username'', Delay 1000,
      Fetch ''reddit'' ''octocat'' ''username'']"
  by code_simp

text \<open>
  C5. \<^verbatim>\<open>searchPlatform\<close> never throws: for every input it returns a result and appends it
  to the engine's results. Whatever its \<^verbatim>\<open>try\<close> block throws is turned into a result with
  status error whose description is \<^verbatim>\<open>Error: \<close> followed by the message of the thrown
  value; in particular a rejected request, a response that is not ok (message
  \<^verbatim>\<open>HTTP error! status: <code>\<close>) and a body that does not parse.
\<close>

theorem searchPlatform_never_throws:
  "\<exists>r w'.
     searchPlatform env p q t w = (Inr r, w') \<and>
     results w' = results w @ [r] \<and>
     (\<forall>e w1. searchPlatform_try env p q t w = (Inl e, w1) \<longrightarrow>
        platform r = p \<and> status r = ''error'' \<and>
        description r = JStr (''Error: '' @ message e) \<and> content r = None) \<and>
     (\<forall>e. fetch env (length (trace w)) p q t = Inl e \<longrightarrow>
        status r = ''error'' \<and> description r = JStr (''Error: '' @ message e)) \<and>
     (\<forall>resp. fetch env (length (trace w)) p q t = Inr resp \<and> \<not> ok resp \<longrightarrow>
        status r = ''error'' \<and>
        description r = JStr (''Error: HTTP error! status: '' @ show_nat (http_status resp))) \<and>
     (\<forall>resp e. fetch env (length (trace w)) p q t = Inr resp \<and> ok resp \<and>
                json_body resp = Inl e \<longrightarrow>
        status r = ''error'' \<and> description r = JStr (''Error: '' @ message e))"
proof -
  have transport: "searchPlatform_try env p q t w = (Inl e, emit (Fetch p q t) w)"
    if "fetch env (length (trace w)) p q t = Inl e" for e
    using that by (simp add: searchPlatform_try_def Let_def)
  have http: "searchPlatform_try env p q t w =
      (Inl (Error (''HTTP error! status: '' @ show_nat (http_status resp))), emit (Fetch p q t) w)"
    if "fetch env (length (trace w)) p q t = Inr resp" "\<not> ok resp" for resp
    using that by (simp add: searchPlatform_try_def Let_def)
  have parse: "searchPlatform_try env p q t w = (Inl e, emit (Fetch p q t) w)"
    if "fetch env (length (trace w)) p q t = Inr resp" "ok resp" "json_body resp = Inl e"
    for resp e
    using that by (simp add: searchPlatform_try_def Let_def)
  show ?thesis
  proof (cases rule: searchPlatform_cases [of env p q t w])
    case (formatted r)
    have "\<not> (\<exists>e. fetch env (length (trace w)) p q t = Inl e)"
      using transport formatted(1) by auto
    moreover have "\<not> (\<exists>resp. fetch env (length (trace w)) p q t = Inr resp \<and> \<not> ok resp)"
      using http formatted(1) by auto
    moreover have "\<not> (\<exists>resp e. fetch env (length (trace w)) p q t = Inr resp \<and> ok resp \<and>
                json_body resp = Inl e)"
      using parse formatted(1) by auto
    ultimately show ?thesis
      using formatted by auto
  next
    case (caught e ts)
    have "e' = e" if "fetch env (length (trace w)) p q t = Inl e'" for e'
      using transport [OF that] caught(1) by simp
    moreover have "e = Error (''HTTP error! status: '' @ show_nat (http_status resp))"
      if "fetch env (length (trace w)) p q t = Inr resp" "\<not> ok resp" for resp
      using http [OF that] caught(1) by simp
    moreover have "e' = e"
      if "fetch env (length (trace w)) p q t = Inr resp" "ok resp" "json_body resp = Inl e'"
      for resp e'
      using parse [OF that] caught(1) by simp
    ultimately show ?thesis
      using caught by auto
  qed
qed

theorem searchPlatform_never_throws_witness:
  "fetch staged (length (trace fresh)) ''hunter'' ''octocat'' ''username''
     = Inl (TypeError ''Failed to fetch'') \<and>
   (\<exists>r w'. searchPlatform staged ''hunter'' ''octocat'' ''username'' fresh = (Inr r, w') \<and>
      results w' = results fresh @ [r] \<and> status r = ''error'' \<and>
      description r = JStr (''Error: '' @ message (TypeError ''Failed to fetch''))) \<and>
   (\<exists>resp. fetch staged (length (trace fresh)) ''unknown-platform'' ''octocat'' ''username''
             = Inr resp \<and> \<not> ok resp \<and> http_status resp = 500) \<and>
   (\<exists>r w'. searchPlatform staged ''unknown-platform'' ''octocat'' ''username'' fresh
             = (Inr r, w') \<and>
      status r = ''error'' \<and>
      description r = JStr (''Error: HTTP error! status: '' @ show_nat 500)) \<and>
   (\<exists>resp. fetch staged (length (trace fresh)) ''whatsapp'' ''octocat'' ''username'' = Inr resp \<and>
      ok resp \<and> json_body resp = Inl (SyntaxError ''Unexpected end of JSON input'')) \<and>
   (\<exists>r w'. searchPlatform staged ''whatsapp'' ''octocat'' ''username'' fresh = (Inr r, w') \<and>
      status r = ''error'' \<and>
      description r = JStr (''Error: '' @ message (SyntaxError ''Unexpected end of JSON input''))) \<and>
   searchPlatform_try staged ''truecaller'' ''octocat'' ''username'' fresh
     = (Inl (cannot_read ''null'' ''name''), emit (Fetch ''truecaller'' ''octocat'' ''username'') fresh) \<and>
   (\<exists>r w'. searchPlatform staged ''truecaller'' ''octocat'' ''username'' fresh = (Inr r, w') \<and>
      platform r = ''truecaller'' \<and> status r = ''error'' \<and> content r = None \<and>
      description r = JStr (''Error: '' @ message (cannot_read ''null'' ''name'')))"
proof -
  have transport: "fetch staged (length (trace fresh)) ''hunter'' ''octocat'' ''username''
     = Inl (TypeError ''Failed to fetch'')"
    by (simp add: staged_def)
  define resp1 where "resp1 = search_route offline_server ''unknown-platform'' ''octocat'' ''username''"
  have http: "fetch staged (length (trace fresh)) ''unknown-platform'' ''octocat'' ''username''
             = Inr resp1" "\<not> ok resp1" "http_status resp1 = 500"
    unfolding resp1_def by code_simp+
  define resp2 where "resp2 = \<lparr>http_status = 200,
                  json_body = Inl (SyntaxError ''Unexpected end of JSON input'')\<rparr>"
  have parse: "fetch staged (length (trace fresh)) ''whatsapp'' ''octocat'' ''username'' = Inr resp2"
    "ok resp2" "json_body resp2 = Inl (SyntaxError ''Unexpected end of JSON input'')"
    unfolding resp2_def by (simp_all add: staged_def ok_def)
  have thrown: "searchPlatform_try staged ''truecaller'' ''octocat'' ''username'' fresh
     = (Inl (cannot_read ''null'' ''name''), emit (Fetch ''truecaller'' ''octocat'' ''username'') fresh)"
    by code_simp
  from searchPlatform_never_throws [of staged "''hunter''" "''octocat''" "''username''" fresh]
    transport
  have a: "\<exists>r w'. searchPlatform staged ''hunter'' ''octocat'' ''username'' fresh = (Inr r, w') \<and>
      results w' = results fresh @ [r] \<and> status r = ''error'' \<and>
      description r = JStr (''Error: '' @ message (TypeError ''Failed to fetch''))"
    by blast
  from searchPlatform_never_throws [of staged "''unknown-platform''" "''octocat''" "''username''" fresh]
    http
  have b: "\<exists>r w'. searchPlatform staged ''unknown-platform'' ''octocat'' ''username'' fresh
             = (Inr r, w') \<and>
      status r = ''error'' \<and>
      description r = JStr (''Error: HTTP error! status: '' @ show_nat 500)"
    by metis
  from searchPlatform_never_throws [of staged "''whatsapp''" "''octocat''" "''username''" fresh]
    parse
  have c: "\<exists>r w'. searchPlatform staged ''whatsapp'' ''octocat'' ''username'' fresh = (Inr r, w') \<and>
      status r = ''error'' \<and>
      description r = JStr (''Error: '' @ message (SyntaxError ''Unexpected end of JSON input''))"
    by blast
  from searchPlatform_never_throws [of staged "''truecaller''" "''octocat''" "''username''" fresh]
    thrown
  have d: "\<exists>r w'. searchPlatform staged ''truecaller'' ''octocat'' ''username'' fresh = (Inr r, w') \<and>
      platform r = ''truecaller'' \<and> status r = ''error'' \<and> content r = None \<and>
      description r = JStr (''Error: '' @ message (cannot_read ''null'' ''name''))"
    by blast
  from a b c d transport http parse thrown show ?thesis by blast
qed

text \<open>
  C6. The claim is that the wait runs only between two searches. The code comment says
  the same (\<^verbatim>\<open>Add delay between searches\<close>), but the loop waits after every search: with
  one platform the only search is followed by a wait of 1000 ms before the run completes.
\<close>

theorem delay_after_last_search:
  "trace (snd (performSearch staged ''octocat'' ''username'' [''github''] fresh)) =
     [Progress ''Initializing search...'' 0,
      Progress ''Searching github...'' 0,
      Fetch ''github'' ''octocat'' ''username'',
      Progress ''Searched 1/1 platforms'' 100,
      Delay 1000,
      Progress ''Search completed!'' 100]"
  by code_simp

text \<open>
  C7. In every run that passes the checks of \<^verbatim>\<open>performSearch\<close>, the progress reports it
  makes start with \<^verbatim>\<open>Initializing search...\<close> at 0, end with \<^verbatim>\<open>Search completed!\<close> at 100,
  and their percentages never decrease. (The percentage is the exact quotient
  \<open>completed / total * 100\<close>; rounding it to a floating-point number keeps the order.)
\<close>

theorem progress_monotone:
  assumes "trim query \<noteq> []" and "type \<in> set search_types"
  shows "\<exists>evs mid.
     trace (snd (performSearch env query type ps w)) = trace w @ evs \<and>
     progress_events evs =
       (''Initializing search...'', 0) # mid @ [(''Search completed!'', 100)] \<and>
     sorted (map snd (progress_events evs))"
proof -
  from performSearch_run [OF assms, of env ps w] obtain rs evs w' where
    run: "performSearch env query type ps w = (Inr rs, w')" and
    tr: "trace w' = trace w @ [Progress ''Initializing search...'' 0] @ evs
                  @ [Progress ''Search completed!'' 100]" and
    srt: "sorted (map snd (progress_events evs))" and
    bnd: "\<forall>x \<in> set (map snd (progress_events evs)). 0 \<le> x \<and> x \<le> 100"
    by blast
  let ?all = "[Progress ''Initializing search...'' 0] @ evs @ [Progress ''Search completed!'' 100]"
  have pe: "progress_events ?all =
       (''Initializing search...'', 0) # progress_events evs @ [(''Search completed!'', 100)]"
    by simp
  have "sorted (0 # map snd (progress_events evs) @ [100 :: rat])"
    using srt bnd by (auto simp: sorted_append)
  then have "sorted (map snd (progress_events ?all))"
    unfolding pe by simp
  with run tr pe show ?thesis
    by (intro exI [of _ ?all] exI [of _ "progress_events evs"]) simp
qed

theorem progress_monotone_witness:
  "trim ''octocat'' \<noteq> [] \<and> ''username'' \<in> set search_types \<and>
   (\<exists>evs mid.
     trace (snd (performSearch staged ''octocat'' ''username''
                   [''github'', ''reddit'', ''unknown-platform''] fresh)) = trace fresh @ evs \<and>
     progress_events evs =
       (''Initializing search...'', 0) # mid @ [(''Search completed!'', 100)] \<and>
     sorted (map snd (progress_events evs)))"
proof -
  have h1: "trim ''octocat'' \<noteq> []" by code_simp
  have h2: "''username'' \<in> set search_types" by (simp add: search_types_def)
  from progress_monotone [OF h1 h2, of staged "[''github'', ''reddit'', ''unknown-platform'']" fresh]
  show ?thesis using h1 h2 by blast
qed

text \<open>
  C8. After any call of \<^verbatim>\<open>performSearch\<close>, \<^verbatim>\<open>getSearchStats\<close> gives as total the number of
  requested platforms, as found the number of results with status found, and as completed
  the number of platforms processed: all of them when the run returned, none when it was
  refused. For three platforms with one found, one not found and one error it gives
  total 3, found 1, completed 3.
\<close>

theorem getSearchStats_after_run:
  "total (getSearchStats (snd (performSearch env query type ps w))) = length ps \<and>
   found (getSearchStats (snd (performSearch env query type ps w))) =
     length (filter (\<lambda>r. status r = ''found'')
               (results (snd (performSearch env query type ps w)))) \<and>
   completed (getSearchStats (snd (performSearch env query type ps w))) =
     (case fst (performSearch env query type ps w) of Inl e \<Rightarrow> 0 | Inr rs \<Rightarrow> length ps) \<and>
   map status (results (snd (performSearch staged ''octocat'' ''username''
                               [''github'', ''reddit'', ''unknown-platform''] fresh))) =
     [''found'', ''not-found'', ''error''] \<and>
   getSearchStats (snd (performSearch staged ''octocat'' ''username''
                          [''github'', ''reddit'', ''unknown-platform''] fresh)) =
     \<lparr>total = 3, found = 1, completed = 3\<rparr>"
proof -
  have general:
    "total (getSearchStats (snd (performSearch env query type ps w))) = length ps \<and>
     found (getSearchStats (snd (performSearch env query type ps w))) =
       length (filter (\<lambda>r. status r = ''found'')
                 (results (snd (performSearch env query type ps w)))) \<and>
     completed (getSearchStats (snd (performSearch env query type ps w))) =
       (case fst (performSearch env query type ps w) of Inl e \<Rightarrow> 0 | Inr rs \<Rightarrow> length ps)"
  proof (cases "trim query \<noteq> [] \<and> type \<in> set search_types")
    case True
    then have valid: "trim query \<noteq> []" "type \<in> set search_types" by simp_all
    from performSearch_run [OF valid, of env ps w] obtain rs w' where
      "performSearch env query type ps w = (Inr rs, w')"
      "completedSearches w' = length ps" "totalPlatforms w' = length ps"
      by blast
    then show ?thesis by (simp add: getSearchStats_def)
  next
    case False
    then have "trim query = [] \<or> type \<notin> set search_types" by simp
    from performSearch_abort [OF this, of env ps w] show ?thesis
      by (auto simp: getSearchStats_def)
  qed
  have example1: "map status (results (snd (performSearch staged ''octocat'' ''username''
                               [''github'', ''reddit'', ''unknown-platform''] fresh))) =
     [''found'', ''not-found'', ''error'']"
    by code_simp
  have example2: "getSearchStats (snd (performSearch staged ''octocat'' ''username''
                          [''github'', ''reddit'', ''unknown-platform''] fresh)) =
     \<lparr>total = 3, found = 1, completed = 3\<rparr>"
    by code_simp
  from general example1 example2 show ?thesis by blast
qed



text \<open>
  C10. \<^verbatim>\<open>performSearch\<close> starts by resetting the engine: its outcome does not depend on the
  results and counters left by an earlier run, the total is the new number of platforms
  and the progress field is 0 even when the query is refused (in which case the results
  are empty, the completed counter is 0 and nothing has been done to the outside), and
  the list returned has exactly one entry per platform of this run.
\<close>

theorem performSearch_resets_state:
  "performSearch env query type ps
     (w\<lparr>results := rs0, searchProgress := a, totalPlatforms := b, completedSearches := c\<rparr>)
     = performSearch env query type ps w \<and>
   totalPlatforms (snd (performSearch env query type ps w)) = length ps \<and>
   searchProgress (snd (performSearch env query type ps w)) = 0 \<and>
   (case fst (performSearch env query type ps w) of
      Inl e \<Rightarrow> results (snd (performSearch env query type ps w)) = [] \<and>
               completedSearches (snd (performSearch env query type ps w)) = 0 \<and>
               trace (snd (performSearch env query type ps w)) = trace w
    | Inr rs \<Rightarrow> rs = results (snd (performSearch env query type ps w)) \<and>
                length rs = length ps)"
proof -
  have same: "performSearch env query type ps
     (w\<lparr>results := rs0, searchProgress := a, totalPlatforms := b, completedSearches := c\<rparr>)
     = performSearch env query type ps w"
    unfolding performSearch_def by simp
  have rest: "totalPlatforms (snd (performSearch env query type ps w)) = length ps \<and>
   searchProgress (snd (performSearch env query type ps w)) = 0 \<and>
   (case fst (performSearch env query type ps w) of
      Inl e \<Rightarrow> results (snd (performSearch env query type ps w)) = [] \<and>
               completedSearches (snd (performSearch env query type ps w)) = 0 \<and>
               trace (snd (performSearch env query type ps w)) = trace w
    | Inr rs \<Rightarrow> rs = results (snd (performSearch env query type ps w)) \<and>
                length rs = length ps)"
  proof (cases "trim query \<noteq> [] \<and> type \<in> set search_types")
    case True
    then have valid: "trim query \<noteq> []" "type \<in> set search_types" by simp_all
    from performSearch_run [OF valid, of env ps w] obtain rs w' where
      "performSearch env query type ps w = (Inr rs, w')" "results w' = rs"
      "list_all2 (\<lambda>p r. \<exists>w1. fst (searchPlatform env p query type w1) = Inr r) ps rs"
      "totalPlatforms w' = length ps" "searchProgress w' = 0"
      by blast
    then show ?thesis by (simp add: list_all2_lengthD)
  next
    case False
    then have "trim query = [] \<or> type \<notin> set search_types" by simp
    from performSearch_abort [OF this, of env ps w] show ?thesis
      by auto
  qed
  from same rest show ?thesis by blast
qed

end
